theory Spec2Isabelle
  imports Complex_Main
begin

section \<open>Values of the host language\<close>

text \<open>
  The component is TypeScript running on a document database. A JavaScript number is
  modelled as a rational (the amounts, counts and timestamps the provider sends are
  integers; no claim depends on rounding). An optional property, \<open>undefined\<close> and
  \<open>null\<close> are the value \<open>None\<close> wherever the code treats them alike (a truthiness
  test, \<open>||\<close>, \<open>??\<close>, \<open>?.\<close>); \<open>js_string\<close> below keeps them apart where it does not.
  The provider's metadata bag is an object with string keys and string values, modelled
  as an association list; an object is always truthy.
\<close>

type_synonym number = rat

type_synonym metadata = "(string \<times> string) list"

text \<open>An exception thrown by the code.\<close>

datatype error =
  NotUnique
  | NoSuchDocument
  | Error string
  | StripeError string
  | ArgumentValidationError

text \<open>Truthiness of an optional string: \<open>undefined\<close>, \<open>null\<close> and \<open>""\<close> are falsy.\<close>

fun truthy_str :: "string option \<Rightarrow> bool" where
  "truthy_str None = False"
| "truthy_str (Some s) = (s \<noteq> [])"

text \<open>
  A string property that the code hands on as it is, through a cast only: it may be
  missing, \<open>null\<close> or a string. Only a string that is not empty is truthy.
\<close>

datatype js_string = Undefined | Null | Str string

fun truthy_js :: "js_string \<Rightarrow> bool" where
  "truthy_js Undefined = False"
| "truthy_js Null = False"
| "truthy_js (Str s) = (s \<noteq> [])"

text \<open>
  The argument validator \<open>v.optional(v.string())\<close> of a mutation: a missing argument and
  a string pass, \<open>null\<close> is rejected and the mutation does not run.
\<close>

fun optional_string_arg :: "js_string \<Rightarrow> error + string option" where
  "optional_string_arg Undefined = Inr None"
| "optional_string_arg Null = Inl ArgumentValidationError"
| "optional_string_arg (Str s) = Inr (Some s)"

text \<open>\<open>x || d\<close> on optional strings and numbers (\<open>0\<close> is falsy), \<open>x ?? d\<close> on any value.\<close>

fun str_or :: "string option \<Rightarrow> string \<Rightarrow> string" where
  "str_or None d = d"
| "str_or (Some s) d = (if s = [] then d else s)"

fun str_or_undefined :: "string option \<Rightarrow> string option" where
  "str_or_undefined None = None"
| "str_or_undefined (Some s) = (if s = [] then None else Some s)"

fun num_or :: "number option \<Rightarrow> number \<Rightarrow> number" where
  "num_or None d = d"
| "num_or (Some n) d = (if n = 0 then d else n)"

fun nullish :: "'a option \<Rightarrow> 'a \<Rightarrow> 'a" where
  "nullish None d = d"
| "nullish (Some x) d = x"

text \<open>\<open>args.metadata || {}\<close> and the property read \<open>metadata.orgId\<close>.\<close>

fun metadata_or_empty :: "metadata option \<Rightarrow> metadata" where
  "metadata_or_empty None = []"
| "metadata_or_empty (Some m) = m"

definition get_prop :: "metadata \<Rightarrow> string \<Rightarrow> string option" where
  "get_prop m k = map_of m k"

section \<open>The document store\<close>

text \<open>
  Schema of \<^verbatim>\<open>src/component/schema.ts\<close>: one record per table, an optional field is an
  option.
\<close>

record customer =
  cus_stripeCustomerId :: string
  cus_email :: "string option"
  cus_name :: "string option"
  cus_metadata :: "metadata option"

record subscription =
  sub_stripeSubscriptionId :: string
  sub_stripeCustomerId :: string
  sub_status :: string
  sub_currentPeriodEnd :: number
  sub_cancelAtPeriodEnd :: bool
  sub_quantity :: "number option"
  sub_priceId :: string
  sub_metadata :: "metadata option"
  sub_orgId :: "string option"
  sub_userId :: "string option"

record checkout_session =
  chk_stripeCheckoutSessionId :: string
  chk_stripeCustomerId :: "string option"
  chk_status :: string
  chk_mode :: string
  chk_metadata :: "metadata option"

record payment =
  pay_stripePaymentIntentId :: string
  pay_stripeCustomerId :: "string option"
  pay_amount :: number
  pay_currency :: string
  pay_status :: string
  pay_created :: number
  pay_metadata :: "metadata option"
  pay_orgId :: "string option"
  pay_userId :: "string option"

record invoice =
  inv_stripeInvoiceId :: string
  inv_stripeCustomerId :: string
  inv_stripeSubscriptionId :: "string option"
  inv_status :: string
  inv_amountDue :: number
  inv_amountPaid :: number
  inv_created :: number
  inv_orgId :: "string option"
  inv_userId :: "string option"

text \<open>
  A stored document carries the system field \<open>_creationTime\<close> beside its own fields.
  The system field \<open>_id\<close> is the document's position in its table: the component never
  deletes a document, so the position identifies it for good.
\<close>

record 'a doc =
  creationTime :: number
  data :: 'a

record store =
  customers :: "customer doc list"
  subscriptions :: "subscription doc list"
  checkout_sessions :: "checkout_session doc list"
  payments :: "payment doc list"
  invoices :: "invoice doc list"
  clock :: number

text \<open>
  \<open>clock\<close> is the current time in milliseconds: it stamps \<open>_creationTime\<close> on insert and
  is what \<open>Date.now()\<close> reads.
\<close>

definition new_doc :: "store \<Rightarrow> 'a \<Rightarrow> 'a doc" where
  "new_doc s f = \<lparr>creationTime = clock s, data = f\<rparr>"

text \<open>\<open>ctx.db.query(table).withIndex(index, q => q.eq(field, k))\<close>: the documents whose
  field equals \<open>k\<close>, each with its \<open>_id\<close>, in table order.\<close>

definition withIndex :: "('a \<Rightarrow> 'k) \<Rightarrow> 'k \<Rightarrow> 'a doc list \<Rightarrow> (nat \<times> 'a doc) list" where
  "withIndex key k tbl = filter (\<lambda>(i, d). key (data d) = k) (enumerate 0 tbl)"

text \<open>\<open>.unique()\<close>: \<open>null\<close> on no result, the document on one, throws on more.\<close>

fun unique :: "'r list \<Rightarrow> error + 'r option" where
  "unique [] = Inr None"
| "unique [r] = Inr (Some r)"
| "unique (r # r' # rs) = Inl NotUnique"

text \<open>\<open>.collect()\<close>: all results.\<close>

definition collect :: "(nat \<times> 'a doc) list \<Rightarrow> 'a doc list" where
  "collect rs = map snd rs"

text \<open>
  \<open>ctx.db.patch(id, value)\<close> merges \<open>value\<close> into the document: a key of \<open>value\<close>
  overwrites the field, a key whose value is \<open>undefined\<close> removes the field, a field
  that is not a key of \<open>value\<close> stays. \<open>patch_value\<close> is one optional field of the
  patch object; \<open>spread_if c v\<close> is the conditional spread \<open>...(c && { k: v })\<close>.
\<close>

datatype 'a patch_value = Absent | Present "'a option"

fun patch_optional :: "'a patch_value \<Rightarrow> 'a option \<Rightarrow> 'a option" where
  "patch_optional Absent old = old"
| "patch_optional (Present v) old = v"

definition spread_if :: "bool \<Rightarrow> 'a \<Rightarrow> 'a patch_value" where
  "spread_if c v = (if c then Present (Some v) else Absent)"

definition patch :: "nat \<Rightarrow> ('a \<Rightarrow> 'a) \<Rightarrow> 'a doc list \<Rightarrow> error + 'a doc list" where
  "patch i f tbl =
     (if i < length tbl then Inr (tbl[i := (tbl ! i)\<lparr>data := f (data (tbl ! i))\<rparr>])
      else Inl NoSuchDocument)"

section \<open>Internal mutations: the webhook handlers\<close>

text \<open>
  A mutation is a transaction: it returns the new store, or throws and leaves no write.
\<close>

record customer_args =
  ca_stripeCustomerId :: string
  ca_email :: "string option"
  ca_name :: "string option"
  ca_metadata :: "metadata option"

definition updateSubscriptionQuantityInternal :: "string \<Rightarrow> number \<Rightarrow> store \<Rightarrow> error + store" where
  "updateSubscriptionQuantityInternal stripeSubscriptionId quantity s =
     (case unique (withIndex sub_stripeSubscriptionId stripeSubscriptionId (subscriptions s)) of
        Inl e \<Rightarrow> Inl e
      | Inr None \<Rightarrow> Inr s
      | Inr (Some (i, subscription)) \<Rightarrow>
          (case patch i (\<lambda>r. r\<lparr>sub_quantity := patch_optional (Present (Some quantity)) (sub_quantity r)\<rparr>)
                  (subscriptions s) of
             Inl e \<Rightarrow> Inl e
           | Inr t \<Rightarrow> Inr (s\<lparr>subscriptions := t\<rparr>)))"

definition handleCustomerCreated :: "customer_args \<Rightarrow> store \<Rightarrow> error + store" where
  "handleCustomerCreated args s =
     (case unique (withIndex cus_stripeCustomerId (ca_stripeCustomerId args) (customers s)) of
        Inl e \<Rightarrow> Inl e
      | Inr (Some existing) \<Rightarrow> Inr s
      | Inr None \<Rightarrow>
          Inr (s\<lparr>customers := customers s @
                 [new_doc s \<lparr>cus_stripeCustomerId = ca_stripeCustomerId args,
                             cus_email = ca_email args,
                             cus_name = ca_name args,
                             cus_metadata = Some (metadata_or_empty (ca_metadata args))\<rparr>]\<rparr>))"

definition handleCustomerUpdated :: "customer_args \<Rightarrow> store \<Rightarrow> error + store" where
  "handleCustomerUpdated args s =
     (case unique (withIndex cus_stripeCustomerId (ca_stripeCustomerId args) (customers s)) of
        Inl e \<Rightarrow> Inl e
      | Inr None \<Rightarrow> Inr s
      | Inr (Some (i, customer)) \<Rightarrow>
          (case patch i (\<lambda>r. r\<lparr>cus_email := patch_optional (Present (ca_email args)) (cus_email r),
                                cus_name := patch_optional (Present (ca_name args)) (cus_name r),
                                cus_metadata := patch_optional (Present (ca_metadata args)) (cus_metadata r)\<rparr>)
                  (customers s) of
             Inl e \<Rightarrow> Inl e
           | Inr t \<Rightarrow> Inr (s\<lparr>customers := t\<rparr>)))"

record subscription_created_args =
  sca_stripeSubscriptionId :: string
  sca_stripeCustomerId :: string
  sca_status :: string
  sca_currentPeriodEnd :: number
  sca_cancelAtPeriodEnd :: bool
  sca_quantity :: "number option"
  sca_priceId :: string
  sca_metadata :: "metadata option"

definition handleSubscriptionCreated :: "subscription_created_args \<Rightarrow> store \<Rightarrow> error + store" where
  "handleSubscriptionCreated args s =
     (case unique (withIndex sub_stripeSubscriptionId (sca_stripeSubscriptionId args) (subscriptions s)) of
        Inl e \<Rightarrow> Inl e
      | Inr (Some existing) \<Rightarrow> Inr s
      | Inr None \<Rightarrow>
          (let metadata = metadata_or_empty (sca_metadata args);
               orgId = get_prop metadata ''orgId'';
               userId = get_prop metadata ''userId''
           in Inr (s\<lparr>subscriptions := subscriptions s @
                 [new_doc s \<lparr>sub_stripeSubscriptionId = sca_stripeSubscriptionId args,
                             sub_stripeCustomerId = sca_stripeCustomerId args,
                             sub_status = sca_status args,
                             sub_currentPeriodEnd = sca_currentPeriodEnd args,
                             sub_cancelAtPeriodEnd = sca_cancelAtPeriodEnd args,
                             sub_quantity = sca_quantity args,
                             sub_priceId = sca_priceId args,
                             sub_metadata = Some metadata,
                             sub_orgId = orgId,
                             sub_userId = userId\<rparr>]\<rparr>)))"

record subscription_updated_args =
  sua_stripeSubscriptionId :: string
  sua_status :: string
  sua_currentPeriodEnd :: number
  sua_cancelAtPeriodEnd :: bool
  sua_quantity :: "number option"
  sua_metadata :: "metadata option"

definition handleSubscriptionUpdated :: "subscription_updated_args \<Rightarrow> store \<Rightarrow> error + store" where
  "handleSubscriptionUpdated args s =
     (case unique (withIndex sub_stripeSubscriptionId (sua_stripeSubscriptionId args) (subscriptions s)) of
        Inl e \<Rightarrow> Inl e
      | Inr None \<Rightarrow> Inr s
      | Inr (Some (i, subscription)) \<Rightarrow>
          (let metadata = metadata_or_empty (sua_metadata args);
               orgId = get_prop metadata ''orgId'';
               userId = get_prop metadata ''userId''
           in case patch i
                  (\<lambda>r. r\<lparr>sub_status := sua_status args,
                          sub_currentPeriodEnd := sua_currentPeriodEnd args,
                          sub_cancelAtPeriodEnd := sua_cancelAtPeriodEnd args,
                          sub_quantity := patch_optional (Present (sua_quantity args)) (sub_quantity r),
                          sub_metadata := patch_optional (spread_if (sua_metadata args \<noteq> None) metadata) (sub_metadata r),
                          sub_orgId := patch_optional (spread_if (orgId \<noteq> None) (the orgId)) (sub_orgId r),
                          sub_userId := patch_optional (spread_if (userId \<noteq> None) (the userId)) (sub_userId r)\<rparr>)
                  (subscriptions s) of
             Inl e \<Rightarrow> Inl e
           | Inr t \<Rightarrow> Inr (s\<lparr>subscriptions := t\<rparr>)))"

definition handleSubscriptionDeleted :: "string \<Rightarrow> store \<Rightarrow> error + store" where
  "handleSubscriptionDeleted stripeSubscriptionId s =
     (case unique (withIndex sub_stripeSubscriptionId stripeSubscriptionId (subscriptions s)) of
        Inl e \<Rightarrow> Inl e
      | Inr None \<Rightarrow> Inr s
      | Inr (Some (i, subscription)) \<Rightarrow>
          (case patch i (\<lambda>r. r\<lparr>sub_status := ''canceled''\<rparr>) (subscriptions s) of
             Inl e \<Rightarrow> Inl e
           | Inr t \<Rightarrow> Inr (s\<lparr>subscriptions := t\<rparr>)))"

record checkout_session_args =
  cka_stripeCheckoutSessionId :: string
  cka_stripeCustomerId :: "string option"
  cka_mode :: string
  cka_metadata :: "metadata option"

definition handleCheckoutSessionCompleted :: "checkout_session_args \<Rightarrow> store \<Rightarrow> error + store" where
  "handleCheckoutSessionCompleted args s =
     (case unique (withIndex chk_stripeCheckoutSessionId (cka_stripeCheckoutSessionId args)
                     (checkout_sessions s)) of
        Inl e \<Rightarrow> Inl e
      | Inr (Some (i, existing)) \<Rightarrow>
          (case patch i
                  (\<lambda>r. r\<lparr>chk_status := ''complete'',
                          chk_stripeCustomerId :=
                            patch_optional (Present (cka_stripeCustomerId args)) (chk_stripeCustomerId r)\<rparr>)
                  (checkout_sessions s) of
             Inl e \<Rightarrow> Inl e
           | Inr t \<Rightarrow> Inr (s\<lparr>checkout_sessions := t\<rparr>))
      | Inr None \<Rightarrow>
          Inr (s\<lparr>checkout_sessions := checkout_sessions s @
                 [new_doc s \<lparr>chk_stripeCheckoutSessionId = cka_stripeCheckoutSessionId args,
                             chk_stripeCustomerId = cka_stripeCustomerId args,
                             chk_status = ''complete'',
                             chk_mode = cka_mode args,
                             chk_metadata = Some (metadata_or_empty (cka_metadata args))\<rparr>]\<rparr>))"

record invoice_created_args =
  ica_stripeInvoiceId :: string
  ica_stripeCustomerId :: string
  ica_stripeSubscriptionId :: "string option"
  ica_status :: string
  ica_amountDue :: number
  ica_amountPaid :: number
  ica_created :: number

text \<open>
  The lookup of the parent subscription inside \<open>handleInvoiceCreated\<close>: the pair
  \<open>(orgId, userId)\<close> it leaves in the two local variables.
\<close>

definition subscription_linkage :: "string option \<Rightarrow> store \<Rightarrow> error + (string option \<times> string option)" where
  "subscription_linkage stripeSubscriptionId s =
     (if truthy_str stripeSubscriptionId then
        (case unique (withIndex sub_stripeSubscriptionId (the stripeSubscriptionId) (subscriptions s)) of
           Inl e \<Rightarrow> Inl e
         | Inr None \<Rightarrow> Inr (None, None)
         | Inr (Some (i, subscription)) \<Rightarrow>
             Inr (sub_orgId (data subscription), sub_userId (data subscription)))
      else Inr (None, None))"

definition handleInvoiceCreated :: "invoice_created_args \<Rightarrow> store \<Rightarrow> error + store" where
  "handleInvoiceCreated args s =
     (case unique (withIndex inv_stripeInvoiceId (ica_stripeInvoiceId args) (invoices s)) of
        Inl e \<Rightarrow> Inl e
      | Inr (Some existing) \<Rightarrow> Inr s
      | Inr None \<Rightarrow>
          (case subscription_linkage (ica_stripeSubscriptionId args) s of
             Inl e \<Rightarrow> Inl e
           | Inr (orgId, userId) \<Rightarrow>
               Inr (s\<lparr>invoices := invoices s @
                      [new_doc s \<lparr>inv_stripeInvoiceId = ica_stripeInvoiceId args,
                                  inv_stripeCustomerId = ica_stripeCustomerId args,
                                  inv_stripeSubscriptionId = ica_stripeSubscriptionId args,
                                  inv_status = ica_status args,
                                  inv_amountDue = ica_amountDue args,
                                  inv_amountPaid = ica_amountPaid args,
                                  inv_created = ica_created args,
                                  inv_orgId = orgId,
                                  inv_userId = userId\<rparr>]\<rparr>)))"

definition handleInvoicePaid :: "string \<Rightarrow> number \<Rightarrow> store \<Rightarrow> error + store" where
  "handleInvoicePaid stripeInvoiceId amountPaid s =
     (case unique (withIndex inv_stripeInvoiceId stripeInvoiceId (invoices s)) of
        Inl e \<Rightarrow> Inl e
      | Inr None \<Rightarrow> Inr s
      | Inr (Some (i, invoice)) \<Rightarrow>
          (case patch i (\<lambda>r. r\<lparr>inv_status := ''paid'', inv_amountPaid := amountPaid\<rparr>) (invoices s) of
             Inl e \<Rightarrow> Inl e
           | Inr t \<Rightarrow> Inr (s\<lparr>invoices := t\<rparr>)))"

definition handleInvoicePaymentFailed :: "string \<Rightarrow> store \<Rightarrow> error + store" where
  "handleInvoicePaymentFailed stripeInvoiceId s =
     (case unique (withIndex inv_stripeInvoiceId stripeInvoiceId (invoices s)) of
        Inl e \<Rightarrow> Inl e
      | Inr None \<Rightarrow> Inr s
      | Inr (Some (i, invoice)) \<Rightarrow>
          (case patch i (\<lambda>r. r\<lparr>inv_status := ''open''\<rparr>) (invoices s) of
             Inl e \<Rightarrow> Inl e
           | Inr t \<Rightarrow> Inr (s\<lparr>invoices := t\<rparr>)))"

record payment_intent_args =
  pia_stripePaymentIntentId :: string
  pia_stripeCustomerId :: "string option"
  pia_amount :: number
  pia_currency :: string
  pia_status :: string
  pia_created :: number
  pia_metadata :: "metadata option"

definition handlePaymentIntentSucceeded :: "payment_intent_args \<Rightarrow> store \<Rightarrow> error + store" where
  "handlePaymentIntentSucceeded args s =
     (case unique (withIndex pay_stripePaymentIntentId (pia_stripePaymentIntentId args) (payments s)) of
        Inl e \<Rightarrow> Inl e
      | Inr None \<Rightarrow>
          (let metadata = metadata_or_empty (pia_metadata args);
               orgId = get_prop metadata ''orgId'';
               userId = get_prop metadata ''userId''
           in Inr (s\<lparr>payments := payments s @
                 [new_doc s \<lparr>pay_stripePaymentIntentId = pia_stripePaymentIntentId args,
                             pay_stripeCustomerId = pia_stripeCustomerId args,
                             pay_amount = pia_amount args,
                             pay_currency = pia_currency args,
                             pay_status = pia_status args,
                             pay_created = pia_created args,
                             pay_metadata = Some metadata,
                             pay_orgId = orgId,
                             pay_userId = userId\<rparr>]\<rparr>))
      | Inr (Some (i, existing)) \<Rightarrow>
          (if truthy_str (pia_stripeCustomerId args) \<and> \<not> truthy_str (pay_stripeCustomerId (data existing))
           then (case patch i
                        (\<lambda>r. r\<lparr>pay_stripeCustomerId :=
                                  patch_optional (Present (pia_stripeCustomerId args)) (pay_stripeCustomerId r)\<rparr>)
                        (payments s) of
                   Inl e \<Rightarrow> Inl e
                 | Inr t \<Rightarrow> Inr (s\<lparr>payments := t\<rparr>))
           else Inr s))"

definition updatePaymentCustomer :: "string \<Rightarrow> string \<Rightarrow> store \<Rightarrow> error + store" where
  "updatePaymentCustomer stripePaymentIntentId stripeCustomerId s =
     (case unique (withIndex pay_stripePaymentIntentId stripePaymentIntentId (payments s)) of
        Inl e \<Rightarrow> Inl e
      | Inr None \<Rightarrow> Inr s
      | Inr (Some (i, payment)) \<Rightarrow>
          (if \<not> truthy_str (pay_stripeCustomerId (data payment))
           then (case patch i
                        (\<lambda>r. r\<lparr>pay_stripeCustomerId :=
                                  patch_optional (Present (Some stripeCustomerId)) (pay_stripeCustomerId r)\<rparr>)
                        (payments s) of
                   Inl e \<Rightarrow> Inl e
                 | Inr t \<Rightarrow> Inr (s\<lparr>payments := t\<rparr>))
           else Inr s))"

section \<open>Public queries and mutations\<close>

text \<open>
  \<open>listSubscriptions\<close> returns each document without its system fields: the arrow
  function \<open>({ _id, _creationTime, ...data }) => data\<close> keeps the rest only. An object
  that a query returns is modelled with the system field it may still carry:
  \<open>obj_creationTime\<close> is \<open>None\<close> when the object has no property \<open>_creationTime\<close>.
\<close>

record 'a query_object =
  obj_creationTime :: "number option"
  obj_data :: 'a

definition omit_system_fields :: "'a doc \<Rightarrow> 'a query_object" where
  "omit_system_fields d = \<lparr>obj_creationTime = None, obj_data = data d\<rparr>"

definition listSubscriptions :: "string \<Rightarrow> store \<Rightarrow> subscription query_object list" where
  "listSubscriptions stripeCustomerId s =
     map omit_system_fields (collect (withIndex sub_stripeCustomerId stripeCustomerId (subscriptions s)))"

definition createOrUpdateCustomer :: "customer_args \<Rightarrow> store \<Rightarrow> error + (string \<times> store)" where
  "createOrUpdateCustomer args s =
     (case unique (withIndex cus_stripeCustomerId (ca_stripeCustomerId args) (customers s)) of
        Inl e \<Rightarrow> Inl e
      | Inr (Some (i, existing)) \<Rightarrow>
          (case patch i (\<lambda>r. r\<lparr>cus_email := patch_optional (Present (ca_email args)) (cus_email r),
                                cus_name := patch_optional (Present (ca_name args)) (cus_name r),
                                cus_metadata := patch_optional (Present (ca_metadata args)) (cus_metadata r)\<rparr>)
                  (customers s) of
             Inl e \<Rightarrow> Inl e
           | Inr t \<Rightarrow> Inr (ca_stripeCustomerId args, s\<lparr>customers := t\<rparr>))
      | Inr None \<Rightarrow>
          Inr (ca_stripeCustomerId args,
               s\<lparr>customers := customers s @
                 [new_doc s \<lparr>cus_stripeCustomerId = ca_stripeCustomerId args,
                             cus_email = ca_email args,
                             cus_name = ca_name args,
                             cus_metadata = ca_metadata args\<rparr>]\<rparr>))"

record subscription_metadata_args =
  usm_stripeSubscriptionId :: string
  usm_metadata :: metadata
  usm_orgId :: "string option"
  usm_userId :: "string option"

definition updateSubscriptionMetadata :: "subscription_metadata_args \<Rightarrow> store \<Rightarrow> error + store" where
  "updateSubscriptionMetadata args s =
     (case unique (withIndex sub_stripeSubscriptionId (usm_stripeSubscriptionId args) (subscriptions s)) of
        Inl e \<Rightarrow> Inl e
      | Inr None \<Rightarrow>
          Inl (Error (''Subscription '' @ usm_stripeSubscriptionId args @ '' not found in database''))
      | Inr (Some (i, subscription)) \<Rightarrow>
          (case patch i
                  (\<lambda>r. r\<lparr>sub_metadata := patch_optional (Present (Some (usm_metadata args))) (sub_metadata r),
                          sub_orgId := patch_optional (Present (usm_orgId args)) (sub_orgId r),
                          sub_userId := patch_optional (Present (usm_userId args)) (sub_userId r)\<rparr>)
                  (subscriptions s) of
             Inl e \<Rightarrow> Inl e
           | Inr t \<Rightarrow> Inr (s\<lparr>subscriptions := t\<rparr>)))"

section \<open>The provider's objects and client\<close>

text \<open>
  The parts of the provider's objects that the component reads. A property the provider
  may leave out or set to \<open>null\<close> is an option. \<open>ss_items\<close> is \<open>items.data\<close>,
  \<open>si_price_id\<close> is \<open>price.id\<close>.
\<close>

record stripe_customer =
  sc_id :: string
  sc_email :: "string option"
  sc_name :: "string option"
  sc_metadata :: "metadata option"

record stripe_subscription_item =
  si_current_period_end :: "number option"
  si_quantity :: "number option"
  si_price_id :: string

record stripe_subscription =
  ss_id :: string
  ss_customer :: string
  ss_status :: string
  ss_items :: "stripe_subscription_item list"
  ss_cancel_at_period_end :: "bool option"
  ss_metadata :: "metadata option"
  ss_latest_invoice :: "string option"

record stripe_checkout_session =
  cs_id :: string
  cs_customer :: "string option"
  cs_mode :: "string option"
  cs_metadata :: "metadata option"
  cs_payment_intent :: "string option"
  cs_subscription :: "string option"

record stripe_invoice =
  iv_id :: string
  iv_customer :: string
  iv_subscription :: js_string
  iv_status :: "string option"
  iv_amount_due :: number
  iv_amount_paid :: number
  iv_created :: number

record stripe_payment_intent =
  pi_id :: string
  pi_invoice :: "string option"
  pi_customer :: "string option"
  pi_amount :: number
  pi_currency :: string
  pi_status :: string
  pi_created :: number
  pi_metadata :: "metadata option"

text \<open>A verified event: its type and the object it carries.\<close>

datatype event =
  CustomerCreated stripe_customer
  | CustomerUpdated stripe_customer
  | SubscriptionCreated stripe_subscription
  | SubscriptionUpdated stripe_subscription
  | SubscriptionDeleted stripe_subscription
  | CheckoutSessionCompleted stripe_checkout_session
  | InvoiceCreated stripe_invoice
  | InvoiceFinalized stripe_invoice
  | InvoicePaid stripe_invoice
  | InvoicePaymentSucceeded stripe_invoice
  | InvoicePaymentFailed stripe_invoice
  | PaymentIntentSucceeded stripe_payment_intent
  | OtherEvent string

fun event_type :: "event \<Rightarrow> string" where
  "event_type (CustomerCreated _) = ''customer.created''"
| "event_type (CustomerUpdated _) = ''customer.updated''"
| "event_type (SubscriptionCreated _) = ''customer.subscription.created''"
| "event_type (SubscriptionUpdated _) = ''customer.subscription.updated''"
| "event_type (SubscriptionDeleted _) = ''customer.subscription.deleted''"
| "event_type (CheckoutSessionCompleted _) = ''checkout.session.completed''"
| "event_type (InvoiceCreated _) = ''invoice.created''"
| "event_type (InvoiceFinalized _) = ''invoice.finalized''"
| "event_type (InvoicePaid _) = ''invoice.paid''"
| "event_type (InvoicePaymentSucceeded _) = ''invoice.payment_succeeded''"
| "event_type (InvoicePaymentFailed _) = ''invoice.payment_failed''"
| "event_type (PaymentIntentSucceeded _) = ''payment_intent.succeeded''"
| "event_type (OtherEvent t) = t"

text \<open>
  The provider's client library is outside the repository: its remote lookups and its
  signature check \<open>webhooks.constructEventAsync(body, signature, secret)\<close> are parameters.
  Each returns a value or throws.
\<close>

record stripe_sdk =
  subscriptions_retrieve :: "string \<Rightarrow> error + stripe_subscription"
  invoices_retrieve :: "string \<Rightarrow> error + stripe_invoice"
  constructEventAsync :: "string \<Rightarrow> string \<Rightarrow> string \<Rightarrow> error + event"

section \<open>The event router\<close>

text \<open>
  \<open>processEvent\<close> runs in an action: each mutation it runs commits on its own, so an
  action returns the store it reached together with the exception that ended it, if any.
\<close>

type_synonym action_result = "error option \<times> store"

definition runMutation :: "(store \<Rightarrow> error + store) \<Rightarrow> store \<Rightarrow> action_result" where
  "runMutation m s = (case m s of Inl e \<Rightarrow> (Some e, s) | Inr s' \<Rightarrow> (None, s'))"

fun then_do :: "action_result \<Rightarrow> (store \<Rightarrow> action_result) \<Rightarrow> action_result" where
  "then_do (Some e, s) f = (Some e, s)"
| "then_do (None, s) f = f s"

text \<open>\<open>items.data[0]\<close>: \<open>undefined\<close> on an empty array.\<close>

fun first_item :: "'a list \<Rightarrow> 'a option" where
  "first_item [] = None"
| "first_item (x # xs) = Some x"

definition RECENT_SUBSCRIPTION_WINDOW_SECONDS :: number where
  "RECENT_SUBSCRIPTION_WINDOW_SECONDS = 10 * 60"

text \<open>
  \<open>a > b\<close> where \<open>a\<close> may be \<open>undefined\<close>: \<open>undefined\<close> converts to \<open>NaN\<close>, and every
  comparison with \<open>NaN\<close> is false.
\<close>

fun js_gt :: "number option \<Rightarrow> number \<Rightarrow> bool" where
  "js_gt None b = False"
| "js_gt (Some a) b = (a > b)"

text \<open>The first guard of \<open>payment_intent.succeeded\<close>: the \<open>try\<close> block that ends in \<open>break\<close>
  when the invoice of the payment intent has a subscription.\<close>

definition is_subscription_payment :: "stripe_sdk \<Rightarrow> stripe_payment_intent \<Rightarrow> bool" where
  "is_subscription_payment stripe paymentIntent =
     (if truthy_str (pi_invoice paymentIntent) then
        (case invoices_retrieve stripe (the (pi_invoice paymentIntent)) of
           Inl err \<Rightarrow> False
         | Inr invoice \<Rightarrow> truthy_js (iv_subscription invoice))
      else False)"

text \<open>The second guard: \<open>recentSubscriptions.find(sub => sub._creationTime > recentWindowStart)\<close>.\<close>

definition recentSubscription :: "stripe_payment_intent \<Rightarrow> store \<Rightarrow> subscription query_object option" where
  "recentSubscription paymentIntent s =
     (let recentSubscriptions = listSubscriptions (the (pi_customer paymentIntent)) s;
          recentWindowStart = clock s / 1000 - RECENT_SUBSCRIPTION_WINDOW_SECONDS
      in find (\<lambda>sub. js_gt (obj_creationTime sub) recentWindowStart) recentSubscriptions)"

text \<open>The best-effort fetch of the latest invoice after a checkout in subscription mode:
  whatever the \<open>try\<close> block throws is caught and logged.\<close>

definition store_latest_invoice :: "stripe_sdk \<Rightarrow> string \<Rightarrow> store \<Rightarrow> action_result" where
  "store_latest_invoice stripe subscriptionId s =
     (case subscriptions_retrieve stripe subscriptionId of
        Inl err \<Rightarrow> (None, s)
      | Inr subscription \<Rightarrow>
          (if truthy_str (ss_latest_invoice subscription) then
             (case invoices_retrieve stripe (the (ss_latest_invoice subscription)) of
                Inl err \<Rightarrow> (None, s)
              | Inr invoice \<Rightarrow>
                  (case handleInvoiceCreated
                          \<lparr>ica_stripeInvoiceId = iv_id invoice,
                           ica_stripeCustomerId = iv_customer invoice,
                           ica_stripeSubscriptionId = Some (ss_id subscription),
                           ica_status = str_or (iv_status invoice) ''paid'',
                           ica_amountDue = iv_amount_due invoice,
                           ica_amountPaid = iv_amount_paid invoice,
                           ica_created = iv_created invoice\<rparr> s of
                     Inl err \<Rightarrow> (None, s)
                   | Inr s' \<Rightarrow> (None, s')))
           else (None, s)))"

definition customer_args_of :: "stripe_customer \<Rightarrow> customer_args" where
  "customer_args_of customer =
     \<lparr>ca_stripeCustomerId = sc_id customer,
      ca_email = str_or_undefined (sc_email customer),
      ca_name = str_or_undefined (sc_name customer),
      ca_metadata = sc_metadata customer\<rparr>"

text \<open>
  The arguments that \<open>invoice.created\<close> and \<open>invoice.finalized\<close> pass to the invoice
  create. The subscription of the invoice goes through a cast only, so a \<open>null\<close> reaches
  the validator of \<open>stripeSubscriptionId\<close> and the call throws before the mutation runs.
\<close>

definition invoice_created_args_of :: "stripe_invoice \<Rightarrow> error + invoice_created_args" where
  "invoice_created_args_of invoice =
     (case optional_string_arg (iv_subscription invoice) of
        Inl e \<Rightarrow> Inl e
      | Inr stripeSubscriptionId \<Rightarrow>
          Inr \<lparr>ica_stripeInvoiceId = iv_id invoice,
               ica_stripeCustomerId = iv_customer invoice,
               ica_stripeSubscriptionId = stripeSubscriptionId,
               ica_status = str_or (iv_status invoice) ''open'',
               ica_amountDue = iv_amount_due invoice,
               ica_amountPaid = iv_amount_paid invoice,
               ica_created = iv_created invoice\<rparr>)"

fun processEvent :: "stripe_sdk \<Rightarrow> event \<Rightarrow> store \<Rightarrow> action_result" where
  "processEvent stripe (CustomerCreated customer) s =
     runMutation (handleCustomerCreated (customer_args_of customer)) s"
| "processEvent stripe (CustomerUpdated customer) s =
     runMutation (handleCustomerUpdated (customer_args_of customer)) s"
| "processEvent stripe (SubscriptionCreated subscription) s =
     runMutation (handleSubscriptionCreated
       \<lparr>sca_stripeSubscriptionId = ss_id subscription,
        sca_stripeCustomerId = ss_customer subscription,
        sca_status = ss_status subscription,
        sca_currentPeriodEnd =
          num_or (Option.bind (first_item (ss_items subscription)) si_current_period_end) 0,
        sca_cancelAtPeriodEnd = nullish (ss_cancel_at_period_end subscription) False,
        sca_quantity = Some (nullish (Option.bind (first_item (ss_items subscription)) si_quantity) 1),
        sca_priceId = str_or (map_option si_price_id (first_item (ss_items subscription))) [],
        sca_metadata = Some (metadata_or_empty (ss_metadata subscription))\<rparr>) s"
| "processEvent stripe (SubscriptionUpdated subscription) s =
     runMutation (handleSubscriptionUpdated
       \<lparr>sua_stripeSubscriptionId = ss_id subscription,
        sua_status = ss_status subscription,
        sua_currentPeriodEnd =
          num_or (Option.bind (first_item (ss_items subscription)) si_current_period_end) 0,
        sua_cancelAtPeriodEnd = nullish (ss_cancel_at_period_end subscription) False,
        sua_quantity = Some (nullish (Option.bind (first_item (ss_items subscription)) si_quantity) 1),
        sua_metadata = Some (metadata_or_empty (ss_metadata subscription))\<rparr>) s"
| "processEvent stripe (SubscriptionDeleted subscription) s =
     runMutation (handleSubscriptionDeleted (ss_id subscription)) s"
| "processEvent stripe (CheckoutSessionCompleted session) s =
     then_do (runMutation (handleCheckoutSessionCompleted
                \<lparr>cka_stripeCheckoutSessionId = cs_id session,
                 cka_stripeCustomerId = (if truthy_str (cs_customer session) then cs_customer session else None),
                 cka_mode = str_or (cs_mode session) ''payment'',
                 cka_metadata = cs_metadata session\<rparr>) s)
      (\<lambda>s1. then_do
         (if cs_mode session = Some ''payment'' \<and> truthy_str (cs_customer session)
               \<and> truthy_str (cs_payment_intent session)
          then runMutation (updatePaymentCustomer (the (cs_payment_intent session))
                              (the (cs_customer session))) s1
          else (None, s1))
      (\<lambda>s2. if cs_mode session = Some ''subscription'' \<and> truthy_str (cs_subscription session)
             then store_latest_invoice stripe (the (cs_subscription session)) s2
             else (None, s2)))"
| "processEvent stripe (InvoiceCreated invoice) s =
     (case invoice_created_args_of invoice of
        Inl e \<Rightarrow> (Some e, s)
      | Inr args \<Rightarrow> runMutation (handleInvoiceCreated args) s)"
| "processEvent stripe (InvoiceFinalized invoice) s =
     (case invoice_created_args_of invoice of
        Inl e \<Rightarrow> (Some e, s)
      | Inr args \<Rightarrow> runMutation (handleInvoiceCreated args) s)"
| "processEvent stripe (InvoicePaid invoice) s =
     runMutation (handleInvoicePaid (iv_id invoice) (iv_amount_paid invoice)) s"
| "processEvent stripe (InvoicePaymentSucceeded invoice) s =
     runMutation (handleInvoicePaid (iv_id invoice) (iv_amount_paid invoice)) s"
| "processEvent stripe (InvoicePaymentFailed invoice) s =
     runMutation (handleInvoicePaymentFailed (iv_id invoice)) s"
| "processEvent stripe (PaymentIntentSucceeded paymentIntent) s =
     (if is_subscription_payment stripe paymentIntent then (None, s)
      else if truthy_str (pi_customer paymentIntent) \<and> recentSubscription paymentIntent s \<noteq> None
      then (None, s)
      else runMutation (handlePaymentIntentSucceeded
             \<lparr>pia_stripePaymentIntentId = pi_id paymentIntent,
              pia_stripeCustomerId =
                (if truthy_str (pi_customer paymentIntent) then pi_customer paymentIntent else None),
              pia_amount = pi_amount paymentIntent,
              pia_currency = pi_currency paymentIntent,
              pia_status = pi_status paymentIntent,
              pia_created = pi_created paymentIntent,
              pia_metadata = Some (metadata_or_empty (pi_metadata paymentIntent))\<rparr>) s)"
| "processEvent stripe (OtherEvent t) s = (None, s)"

section \<open>The webhook endpoint\<close>

type_synonym hook = "event \<Rightarrow> store \<Rightarrow> action_result"

record config =
  cfg_webhookPath :: "string option"
  cfg_events :: "string \<Rightarrow> hook option"
  cfg_onEvent :: "hook option"
  cfg_STRIPE_WEBHOOK_SECRET :: "string option"
  cfg_STRIPE_SECRET_KEY :: "string option"

record environment =
  env_STRIPE_WEBHOOK_SECRET :: "string option"
  env_STRIPE_SECRET_KEY :: "string option"

text \<open>\<open>req_signature\<close> is \<open>req.headers.get("stripe-signature")\<close>, \<open>req_body\<close> the raw text.\<close>

record request =
  req_signature :: "string option"
  req_body :: string

text \<open>
  A response body: plain text, or the JSON object \<open>{ received: b }\<close>. A response built
  from a string with no header of its own carries the content type of plain text.
\<close>

datatype response_body = Text string | Json_received bool

record response =
  resp_status :: nat
  resp_body :: response_body
  resp_content_type :: "string option"

definition text_plain :: "string option" where
  "text_plain = Some ''text/plain;charset=UTF-8''"

text \<open>\<open>a || b\<close> on two optional strings.\<close>

definition opt_or :: "string option \<Rightarrow> string option \<Rightarrow> string option" where
  "opt_or a b = (if truthy_str a then a else b)"

fun error_message :: "error \<Rightarrow> string" where
  "error_message NotUnique = ''unique() query returned more than one result''"
| "error_message NoSuchDocument = ''Update on nonexistent document ID''"
| "error_message (Error m) = m"
| "error_message (StripeError m) = m"
| "error_message ArgumentValidationError = ''ArgumentValidationError: Value does not match validator''"

text \<open>The hooks of the embedding application, after the default processing.\<close>

definition run_hooks :: "config option \<Rightarrow> event \<Rightarrow> store \<Rightarrow> action_result" where
  "run_hooks cfg event s =
     then_do (case Option.bind cfg cfg_onEvent of
                Some onEvent \<Rightarrow> onEvent event s
              | None \<Rightarrow> (None, s))
       (\<lambda>s1. case (case cfg of None \<Rightarrow> None | Some c \<Rightarrow> cfg_events c (event_type event)) of
                Some customHandler \<Rightarrow> customHandler event s1
              | None \<Rightarrow> (None, s1))"

text \<open>
  The handler that \<open>registerRoutes\<close> installs on the webhook path. \<open>StripeSDK\<close> builds
  the provider client from the API key. The handler returns the response and the store
  the request leaves behind.
\<close>

definition webhook_handler ::
  "(string \<Rightarrow> stripe_sdk) \<Rightarrow> config option \<Rightarrow> environment \<Rightarrow> request \<Rightarrow> store \<Rightarrow> response \<times> store" where
  "webhook_handler StripeSDK cfg env req s =
     (let webhookSecret = opt_or (Option.bind cfg cfg_STRIPE_WEBHOOK_SECRET) (env_STRIPE_WEBHOOK_SECRET env)
      in if \<not> truthy_str webhookSecret then
           (\<lparr>resp_status = 500, resp_body = Text ''Webhook secret not configured'',
             resp_content_type = text_plain\<rparr>, s)
         else
           let signature = req_signature req
           in if \<not> truthy_str signature then
                (\<lparr>resp_status = 400, resp_body = Text ''No signature provided'',
                  resp_content_type = text_plain\<rparr>, s)
              else
                let body = req_body req;
                    apiKey = opt_or (Option.bind cfg cfg_STRIPE_SECRET_KEY) (env_STRIPE_SECRET_KEY env)
                in if \<not> truthy_str apiKey then
                     (\<lparr>resp_status = 500, resp_body = Text ''Stripe secret key not configured'',
                       resp_content_type = text_plain\<rparr>, s)
                   else
                     let stripe = StripeSDK (the apiKey)
                     in case constructEventAsync stripe body (the signature) (the webhookSecret) of
                          Inl err \<Rightarrow>
                            (\<lparr>resp_status = 400,
                              resp_body = Text (''Webhook signature verification failed: '' @ error_message err),
                              resp_content_type = text_plain\<rparr>, s)
                        | Inr event \<Rightarrow>
                            (case then_do (processEvent stripe event s) (run_hooks cfg event) of
                               (Some error, s') \<Rightarrow>
                                 (\<lparr>resp_status = 500, resp_body = Text ''Error processing webhook'',
                                   resp_content_type = text_plain\<rparr>, s')
                             | (None, s') \<Rightarrow>
                                 (\<lparr>resp_status = 200, resp_body = Json_received True,
                                   resp_content_type = Some ''application/json''\<rparr>, s')))"

section \<open>Vocabulary of the properties\<close>

text \<open>The provider-assigned keys of a table, in table order.\<close>

definition keys_of :: "('a \<Rightarrow> 'k) \<Rightarrow> 'a doc list \<Rightarrow> 'k list" where
  "keys_of key tbl = map (\<lambda>d. key (data d)) tbl"

text \<open>The records of a table that carry a given key.\<close>

definition records_for :: "('a \<Rightarrow> 'k) \<Rightarrow> 'k \<Rightarrow> 'a doc list \<Rightarrow> 'a doc list" where
  "records_for key k tbl = filter (\<lambda>d. key (data d) = k) tbl"

text \<open>
  The data model declares each provider-assigned ID unique in its table. \<open>unique_keys\<close>
  says so of a store; the empty store has the property and every mutation keeps it
  (\<open>unique_keys_empty\<close>, \<open>unique_keys_mutations\<close> below).
\<close>

definition unique_keys :: "store \<Rightarrow> bool" where
  "unique_keys s =
     (distinct (keys_of cus_stripeCustomerId (customers s)) \<and>
      distinct (keys_of sub_stripeSubscriptionId (subscriptions s)) \<and>
      distinct (keys_of chk_stripeCheckoutSessionId (checkout_sessions s)) \<and>
      distinct (keys_of pay_stripePaymentIntentId (payments s)) \<and>
      distinct (keys_of inv_stripeInvoiceId (invoices s)))"

subsection \<open>Concrete stores and events\<close>

definition empty_store :: store where
  "empty_store =
     \<lparr>customers = [], subscriptions = [], checkout_sessions = [], payments = [], invoices = [],
      clock = 1700000600000\<rparr>"

definition example_customer :: customer where
  "example_customer =
     \<lparr>cus_stripeCustomerId = ''cus_1'', cus_email = Some ''ada@example.com'',
      cus_name = Some ''Ada'', cus_metadata = Some [(''plan'', ''pro'')]\<rparr>"

definition example_subscription :: subscription where
  "example_subscription =
     \<lparr>sub_stripeSubscriptionId = ''sub_1'', sub_stripeCustomerId = ''cus_1'',
      sub_status = ''active'', sub_currentPeriodEnd = 1702592000, sub_cancelAtPeriodEnd = False,
      sub_quantity = Some 3, sub_priceId = ''price_1'',
      sub_metadata = Some [(''orgId'', ''org_1''), (''userId'', ''user_1'')],
      sub_orgId = Some ''org_1'', sub_userId = Some ''user_1''\<rparr>"

definition example_payment :: payment where
  "example_payment =
     \<lparr>pay_stripePaymentIntentId = ''pi_1'', pay_stripeCustomerId = Some ''cus_1'',
      pay_amount = 1999, pay_currency = ''usd'', pay_status = ''succeeded'',
      pay_created = 1700000000, pay_metadata = Some [], pay_orgId = None, pay_userId = None\<rparr>"

definition example_invoice :: invoice where
  "example_invoice =
     \<lparr>inv_stripeInvoiceId = ''in_1'', inv_stripeCustomerId = ''cus_1'',
      inv_stripeSubscriptionId = Some ''sub_1'', inv_status = ''open'', inv_amountDue = 2500,
      inv_amountPaid = 0, inv_created = 1700000000,
      inv_orgId = Some ''org_1'', inv_userId = Some ''user_1''\<rparr>"

text \<open>
  A store with one record per table. Its subscription was created one second before the
  current time.
\<close>

definition example_store :: store where
  "example_store =
     \<lparr>customers = [\<lparr>creationTime = 1700000000000, data = example_customer\<rparr>],
      subscriptions = [\<lparr>creationTime = 1700000599000, data = example_subscription\<rparr>],
      checkout_sessions = [],
      payments = [\<lparr>creationTime = 1700000000000, data = example_payment\<rparr>],
      invoices = [\<lparr>creationTime = 1700000000000, data = example_invoice\<rparr>],
      clock = 1700000600000\<rparr>"

text \<open>
  A provider client: its invoice \<open>in_1\<close> belongs to a subscription, every other remote
  lookup fails, and one signed request verifies (to an event type the router ignores).
\<close>

definition example_sdk :: stripe_sdk where
  "example_sdk =
     \<lparr>subscriptions_retrieve = (\<lambda>id. Inl (StripeError ''No such subscription'')),
      invoices_retrieve = (\<lambda>id.
         if id = ''in_1'' then
           Inr \<lparr>iv_id = ''in_1'', iv_customer = ''cus_1'', iv_subscription = Str ''sub_1'',
                iv_status = Some ''paid'', iv_amount_due = 2500, iv_amount_paid = 2500,
                iv_created = 1700000000\<rparr>
         else Inl (StripeError ''No such invoice'')),
      constructEventAsync = (\<lambda>body signature secret.
         if body = ''payload'' \<and> signature = ''t=1,v1=5257'' \<and> secret = ''whsec_1''
         then Inr (OtherEvent ''charge.refunded'')
         else Inl (StripeError ''No signatures found matching the expected signature for payload''))\<rparr>"

definition example_payment_intent :: stripe_payment_intent where
  "example_payment_intent =
     \<lparr>pi_id = ''pi_2'', pi_invoice = None, pi_customer = Some ''cus_1'', pi_amount = 4900,
      pi_currency = ''usd'', pi_status = ''succeeded'', pi_created = 1700000599,
      pi_metadata = Some [(''userId'', ''user_1'')]\<rparr>"

definition example_environment :: environment where
  "example_environment =
     \<lparr>env_STRIPE_WEBHOOK_SECRET = Some ''whsec_1'', env_STRIPE_SECRET_KEY = Some ''sk_test_1''\<rparr>"

definition example_request :: request where
  "example_request = \<lparr>req_signature = Some ''t=1,v1=5257'', req_body = ''payload''\<rparr>"

section \<open>Lookups by key\<close>

lemma filter_enumerate_absent:
  "k \<notin> set (keys_of key tbl) \<Longrightarrow> filter (\<lambda>(i, d). key (data d) = k) (enumerate n tbl) = []"
  by (induction tbl arbitrary: n) (auto simp: keys_of_def)

lemma withIndex_absent:
  "k \<notin> set (keys_of key tbl) \<Longrightarrow> withIndex key k tbl = []"
  by (simp add: withIndex_def filter_enumerate_absent)

lemma filter_enumerate_unique:
  "distinct (keys_of key tbl) \<Longrightarrow> i < length tbl \<Longrightarrow> key (data (tbl ! i)) = k \<Longrightarrow>
   filter (\<lambda>(j, d). key (data d) = k) (enumerate n tbl) = [(n + i, tbl ! i)]"
proof (induction tbl arbitrary: n i)
  case Nil
  then show ?case by simp
next
  case (Cons d tbl)
  show ?case
  proof (cases i)
    case 0
    with Cons.prems have "k \<notin> set (keys_of key tbl)"
      by (auto simp: keys_of_def)
    then have "filter (\<lambda>(j, d). key (data d) = k) (enumerate (Suc n) tbl) = []"
      by (rule filter_enumerate_absent)
    with 0 Cons.prems show ?thesis by simp
  next
    case (Suc i')
    with Cons.prems have d: "key (data d) \<noteq> k"
      by (auto simp: keys_of_def)
    from Suc Cons.prems
    have "filter (\<lambda>(j, d). key (data d) = k) (enumerate (Suc n) tbl) = [(Suc n + i', tbl ! i')]"
      by (intro Cons.IH) (auto simp: keys_of_def)
    with d Suc show ?thesis by simp
  qed
qed

lemma withIndex_unique:
  "distinct (keys_of key tbl) \<Longrightarrow> i < length tbl \<Longrightarrow> key (data (tbl ! i)) = k \<Longrightarrow>
   withIndex key k tbl = [(i, tbl ! i)]"
  using filter_enumerate_unique [of key tbl i k 0] by (simp add: withIndex_def)

lemma withIndex_append:
  "withIndex key k (tbl @ [d]) =
     withIndex key k tbl @ (if key (data d) = k then [(length tbl, d)] else [])"
  by (simp add: withIndex_def enumerate_append_eq)

lemma in_keys_conv:
  "k \<in> set (keys_of key tbl) \<longleftrightarrow> (\<exists>i < length tbl. key (data (tbl ! i)) = k)"
  by (force simp: keys_of_def in_set_conv_nth)

lemma unique_absent:
  "k \<notin> set (keys_of key tbl) \<Longrightarrow> unique (withIndex key k tbl) = Inr None"
  by (simp add: withIndex_absent)

lemma unique_found:
  "distinct (keys_of key tbl) \<Longrightarrow> i < length tbl \<Longrightarrow> key (data (tbl ! i)) = k \<Longrightarrow>
   unique (withIndex key k tbl) = Inr (Some (i, tbl ! i))"
  by (simp add: withIndex_unique)

lemma patch_found:
  "i < length tbl \<Longrightarrow> patch i f tbl = Inr (tbl[i := (tbl ! i)\<lparr>data := f (data (tbl ! i))\<rparr>])"
  by (simp add: patch_def)

lemma withIndex_sound:
  "(j, d) \<in> set (withIndex key k tbl) \<Longrightarrow> j < length tbl \<and> d = tbl ! j \<and> key (data d) = k"
  by (auto simp: withIndex_def in_set_enumerate_eq)

lemma unique_Some: "unique rs = Inr (Some r) \<Longrightarrow> rs = [r]"
  by (cases rs rule: unique.cases) auto

lemma unique_None: "unique rs = Inr None \<Longrightarrow> rs = []"
  by (cases rs rule: unique.cases) auto

lemma unique_withIndex_Some:
  assumes "unique (withIndex key k tbl) = Inr (Some (j, d))"
  shows "j < length tbl \<and> d = tbl ! j \<and> key (data d) = k"
proof -
  from assms have "withIndex key k tbl = [(j, d)]" by (rule unique_Some)
  then have "(j, d) \<in> set (withIndex key k tbl)" by simp
  then show ?thesis by (rule withIndex_sound)
qed

lemma withIndex_snd: "map snd (withIndex key k tbl) = records_for key k tbl"
proof -
  have "map snd (filter (\<lambda>(i, d). key (data d) = k) (enumerate n tbl)) =
          filter (\<lambda>d. key (data d) = k) tbl" for n
    by (induction tbl arbitrary: n) auto
  then show ?thesis by (simp add: withIndex_def records_for_def)
qed

lemma unique_None_absent:
  assumes "unique (withIndex key k tbl) = Inr None"
  shows "k \<notin> set (keys_of key tbl)"
proof -
  from assms have "withIndex key k tbl = []" by (rule unique_None)
  then have "records_for key k tbl = []" using withIndex_snd [of key k tbl] by simp
  then show ?thesis by (auto simp: records_for_def keys_of_def filter_empty_conv)
qed

lemma unique_after_insert:
  "k \<notin> set (keys_of key tbl) \<Longrightarrow> key (data d) = k \<Longrightarrow>
   unique (withIndex key k (tbl @ [d])) = Inr (Some (length tbl, d))"
  by (simp add: withIndex_append withIndex_absent)

lemma records_for_absent:
  "k \<notin> set (keys_of key tbl) \<Longrightarrow> records_for key k tbl = []"
  by (induction tbl) (auto simp: records_for_def keys_of_def)

lemma records_for_present:
  "distinct (keys_of key tbl) \<Longrightarrow> k \<in> set (keys_of key tbl) \<Longrightarrow>
   length (records_for key k tbl) = 1"
proof (induction tbl)
  case Nil
  then show ?case by (simp add: keys_of_def)
next
  case (Cons d tbl)
  show ?case
  proof (cases "key (data d) = k")
    case True
    with Cons.prems have "k \<notin> set (keys_of key tbl)" by (auto simp: keys_of_def)
    then have "records_for key k tbl = []" by (rule records_for_absent)
    with True show ?thesis by (simp add: records_for_def)
  next
    case False
    with Cons.prems have "distinct (keys_of key tbl)" "k \<in> set (keys_of key tbl)"
      by (auto simp: keys_of_def)
    then have "length (records_for key k tbl) = 1" by (rule Cons.IH)
    with False show ?thesis by (simp add: records_for_def)
  qed
qed

lemma records_for_append:
  "records_for key k (tbl @ [d]) = records_for key k tbl @ (if key (data d) = k then [d] else [])"
  by (simp add: records_for_def)

lemma keys_of_append: "keys_of key (tbl @ [d]) = keys_of key tbl @ [key (data d)]"
  by (simp add: keys_of_def)

lemma keys_of_update_same:
  "i < length tbl \<Longrightarrow> key r = key (data (tbl ! i)) \<Longrightarrow>
   keys_of key (tbl[i := (tbl ! i)\<lparr>data := r\<rparr>]) = keys_of key tbl"
  by (simp add: keys_of_def map_update list_update_same_conv)

section \<open>Actions built from mutations\<close>

lemma runMutation_preserves:
  assumes "\<And>s'. m s = Inr s' \<Longrightarrow> P s'" and "P s"
  shows "P (snd (runMutation m s))"
  using assms by (auto simp: runMutation_def split: sum.splits)

lemma then_do_preserves:
  assumes "P (snd r)" and "\<And>s. P s \<Longrightarrow> P (snd (f s))"
  shows "P (snd (then_do r f))"
  using assms by (cases "(r, f)" rule: then_do.cases) auto

lemma runMutation_payments:
  assumes "\<And>s'. m s = Inr s' \<Longrightarrow> payments s' = payments s"
  shows "payments (snd (runMutation m s)) = payments s"
  using assms by (auto simp: runMutation_def split: sum.splits)

section \<open>Keys stay unique\<close>

text \<open>
  The empty store has unique keys, and every mutation, and so the event router, keeps
  them unique: each insert follows a lookup that found nothing, and no patch changes a key.
\<close>

lemma unique_keys_empty: "unique_keys empty_store"
  by (simp add: unique_keys_def empty_store_def keys_of_def)

lemma unique_keys_customer:
  assumes "unique_keys s"
  shows "handleCustomerCreated a s = Inr s' \<Longrightarrow> unique_keys s'"
    and "handleCustomerUpdated a s = Inr s' \<Longrightarrow> unique_keys s'"
    and "createOrUpdateCustomer a s = Inr (r, s') \<Longrightarrow> unique_keys s'"
  using assms
  by (auto simp: handleCustomerCreated_def handleCustomerUpdated_def createOrUpdateCustomer_def
      unique_keys_def keys_of_append new_doc_def patch_def keys_of_update_same
      split: sum.splits option.splits if_splits dest: unique_None_absent)

lemma unique_keys_subscription:
  assumes "unique_keys s"
  shows "handleSubscriptionCreated c s = Inr s' \<Longrightarrow> unique_keys s'"
    and "handleSubscriptionUpdated u s = Inr s' \<Longrightarrow> unique_keys s'"
    and "handleSubscriptionDeleted k s = Inr s' \<Longrightarrow> unique_keys s'"
    and "updateSubscriptionMetadata m s = Inr s' \<Longrightarrow> unique_keys s'"
    and "updateSubscriptionQuantityInternal k q s = Inr s' \<Longrightarrow> unique_keys s'"
  using assms
  by (auto simp: handleSubscriptionCreated_def handleSubscriptionUpdated_def
      handleSubscriptionDeleted_def updateSubscriptionMetadata_def
      updateSubscriptionQuantityInternal_def Let_def
      unique_keys_def keys_of_append new_doc_def patch_def keys_of_update_same
      split: sum.splits option.splits if_splits dest: unique_None_absent)

lemma unique_keys_checkout:
  assumes "unique_keys s"
  shows "handleCheckoutSessionCompleted a s = Inr s' \<Longrightarrow> unique_keys s'"
  using assms
  by (auto simp: handleCheckoutSessionCompleted_def
      unique_keys_def keys_of_append new_doc_def patch_def keys_of_update_same
      split: sum.splits option.splits if_splits dest: unique_None_absent)

lemma unique_keys_invoice:
  assumes "unique_keys s"
  shows "handleInvoiceCreated a s = Inr s' \<Longrightarrow> unique_keys s'"
    and "handleInvoicePaid k amountPaid s = Inr s' \<Longrightarrow> unique_keys s'"
    and "handleInvoicePaymentFailed k s = Inr s' \<Longrightarrow> unique_keys s'"
  using assms
  by (auto simp: handleInvoiceCreated_def handleInvoicePaid_def handleInvoicePaymentFailed_def
      unique_keys_def keys_of_append new_doc_def patch_def keys_of_update_same
      split: sum.splits option.splits if_splits dest: unique_None_absent)

lemma unique_keys_payment:
  assumes "unique_keys s"
  shows "handlePaymentIntentSucceeded a s = Inr s' \<Longrightarrow> unique_keys s'"
    and "updatePaymentCustomer k c s = Inr s' \<Longrightarrow> unique_keys s'"
  using assms
  by (auto simp: handlePaymentIntentSucceeded_def updatePaymentCustomer_def Let_def
      unique_keys_def keys_of_append new_doc_def patch_def keys_of_update_same
      split: sum.splits option.splits if_splits dest: unique_None_absent)

lemmas unique_keys_mutations =
  unique_keys_customer unique_keys_subscription unique_keys_checkout unique_keys_invoice
  unique_keys_payment

lemma unique_keys_store_latest_invoice:
  "unique_keys s \<Longrightarrow> unique_keys (snd (store_latest_invoice stripe k s))"
  by (auto simp: store_latest_invoice_def split: sum.splits dest: unique_keys_invoice(1))

lemma unique_keys_processEvent:
  assumes "unique_keys s"
  shows "unique_keys (snd (processEvent stripe e s))"
proof (cases e)
  case (CheckoutSessionCompleted session)
  have first: "unique_keys (snd (runMutation (handleCheckoutSessionCompleted a) s))" for a
    using assms by (auto intro: runMutation_preserves [where P = unique_keys] unique_keys_checkout)
  have second:
    "unique_keys (snd (if c then runMutation (updatePaymentCustomer p k) s1 else (None, s1)))"
    if "unique_keys s1" for c p k s1
    using that by (auto intro: runMutation_preserves [where P = unique_keys] unique_keys_payment(2))
  have third: "unique_keys (snd (if c then store_latest_invoice stripe k s2 else (None, s2)))"
    if "unique_keys s2" for c k s2
    using that by (simp add: unique_keys_store_latest_invoice)
  show ?thesis
    unfolding CheckoutSessionCompleted processEvent.simps
    by (intro then_do_preserves [where P = unique_keys] first second third)
qed (auto intro!: runMutation_preserves [where P = unique_keys] assms
      elim: unique_keys_mutations [OF assms] split: sum.splits)

section \<open>Update handlers on a missing key\<close>

text \<open>
  Claim C5. The customer update, subscription update, invoice paid and invoice
  payment-failed handlers, applied with a key that has no record in the store, return
  normally (no exception) with the store they were given: nothing is patched and nothing
  is inserted.
\<close>

theorem update_absent_key_noop:
  "(ca_stripeCustomerId a \<notin> set (keys_of cus_stripeCustomerId (customers s))
      \<longrightarrow> handleCustomerUpdated a s = Inr s) \<and>
   (sua_stripeSubscriptionId u \<notin> set (keys_of sub_stripeSubscriptionId (subscriptions s))
      \<longrightarrow> handleSubscriptionUpdated u s = Inr s) \<and>
   (k \<notin> set (keys_of inv_stripeInvoiceId (invoices s))
      \<longrightarrow> handleInvoicePaid k amountPaid s = Inr s \<and> handleInvoicePaymentFailed k s = Inr s)"
  by (simp add: handleCustomerUpdated_def handleSubscriptionUpdated_def handleInvoicePaid_def
      handleInvoicePaymentFailed_def unique_absent)

theorem update_absent_key_noop_witness:
  "handleCustomerUpdated
     \<lparr>ca_stripeCustomerId = ''cus_9'', ca_email = Some ''eve@example.com'', ca_name = None,
      ca_metadata = None\<rparr> example_store = Inr example_store \<and>
   handleSubscriptionUpdated
     \<lparr>sua_stripeSubscriptionId = ''sub_9'', sua_status = ''past_due'', sua_currentPeriodEnd = 5,
      sua_cancelAtPeriodEnd = True, sua_quantity = Some 2,
      sua_metadata = Some [(''orgId'', ''org_9'')]\<rparr> example_store = Inr example_store \<and>
   handleInvoicePaid ''in_9'' 2500 example_store = Inr example_store \<and>
   handleInvoicePaymentFailed ''in_9'' example_store = Inr example_store"
  using update_absent_key_noop
    [of "\<lparr>ca_stripeCustomerId = ''cus_9'', ca_email = Some ''eve@example.com'', ca_name = None,
          ca_metadata = None\<rparr>"
        example_store
        "\<lparr>sua_stripeSubscriptionId = ''sub_9'', sua_status = ''past_due'', sua_currentPeriodEnd = 5,
          sua_cancelAtPeriodEnd = True, sua_quantity = Some 2,
          sua_metadata = Some [(''orgId'', ''org_9'')]\<rparr>"
        "''in_9''" 2500]
  by (simp add: keys_of_def example_store_def example_customer_def example_subscription_def
      example_invoice_def)

section \<open>Cancelling a subscription\<close>

text \<open>
  Claim C7. On a store whose subscription keys are unique, the subscription-delete
  handler applied to the key of an existing record patches that record's status to
  \<open>canceled\<close> and nothing else: the record's other fields (customer reference,
  currentPeriodEnd, cancelAtPeriodEnd, quantity, priceId, metadata, orgId, userId, and its
  key and creation time), every other subscription and every other table stay as they
  were.
\<close>

theorem subscription_deleted_patches_status_only:
  assumes "distinct (keys_of sub_stripeSubscriptionId (subscriptions s))"
    and "i < length (subscriptions s)"
    and "sub_stripeSubscriptionId (data (subscriptions s ! i)) = k"
  shows "\<exists>s'. handleSubscriptionDeleted k s = Inr s' \<and>
           s' = s\<lparr>subscriptions := (subscriptions s)
                  [i := (subscriptions s ! i)
                     \<lparr>data := (data (subscriptions s ! i))\<lparr>sub_status := ''canceled''\<rparr>\<rparr>]\<rparr> \<and>
           sub_status (data (subscriptions s' ! i)) = ''canceled'' \<and>
           sub_stripeSubscriptionId (data (subscriptions s' ! i)) = k \<and>
           sub_stripeCustomerId (data (subscriptions s' ! i)) = sub_stripeCustomerId (data (subscriptions s ! i)) \<and>
           sub_currentPeriodEnd (data (subscriptions s' ! i)) = sub_currentPeriodEnd (data (subscriptions s ! i)) \<and>
           sub_cancelAtPeriodEnd (data (subscriptions s' ! i)) = sub_cancelAtPeriodEnd (data (subscriptions s ! i)) \<and>
           sub_quantity (data (subscriptions s' ! i)) = sub_quantity (data (subscriptions s ! i)) \<and>
           sub_priceId (data (subscriptions s' ! i)) = sub_priceId (data (subscriptions s ! i)) \<and>
           sub_metadata (data (subscriptions s' ! i)) = sub_metadata (data (subscriptions s ! i)) \<and>
           sub_orgId (data (subscriptions s' ! i)) = sub_orgId (data (subscriptions s ! i)) \<and>
           sub_userId (data (subscriptions s' ! i)) = sub_userId (data (subscriptions s ! i)) \<and>
           creationTime (subscriptions s' ! i) = creationTime (subscriptions s ! i) \<and>
           length (subscriptions s') = length (subscriptions s) \<and>
           (\<forall>j < length (subscriptions s). j \<noteq> i \<longrightarrow> subscriptions s' ! j = subscriptions s ! j)"
proof -
  from assms have found:
    "unique (withIndex sub_stripeSubscriptionId k (subscriptions s)) = Inr (Some (i, subscriptions s ! i))"
    by (rule unique_found)
  from assms(2) have patched:
    "patch i (\<lambda>r. r\<lparr>sub_status := ''canceled''\<rparr>) (subscriptions s) =
       Inr ((subscriptions s)
              [i := (subscriptions s ! i)
                 \<lparr>data := (data (subscriptions s ! i))\<lparr>sub_status := ''canceled''\<rparr>\<rparr>])"
    by (rule patch_found)
  from found patched have
    "handleSubscriptionDeleted k s =
       Inr (s\<lparr>subscriptions := (subscriptions s)
              [i := (subscriptions s ! i)
                 \<lparr>data := (data (subscriptions s ! i))\<lparr>sub_status := ''canceled''\<rparr>\<rparr>]\<rparr>)"
    by (simp add: handleSubscriptionDeleted_def)
  with assms(2,3) show ?thesis by simp
qed

theorem subscription_deleted_patches_status_only_witness:
  "handleSubscriptionDeleted ''sub_1'' example_store =
     Inr (example_store\<lparr>subscriptions :=
            [\<lparr>creationTime = 1700000599000,
              data = example_subscription\<lparr>sub_status := ''canceled''\<rparr>\<rparr>]\<rparr>)"
  using subscription_deleted_patches_status_only [of example_store 0 "''sub_1''"]
  by (simp add: keys_of_def example_store_def example_subscription_def)

section \<open>Patches of an existing record\<close>

lemma handleCustomerUpdated_found:
  assumes "distinct (keys_of cus_stripeCustomerId (customers s))"
    and "i < length (customers s)"
    and "cus_stripeCustomerId (data (customers s ! i)) = ca_stripeCustomerId a"
  shows "handleCustomerUpdated a s =
           Inr (s\<lparr>customers := (customers s)
                  [i := (customers s ! i)
                     \<lparr>data := (data (customers s ! i))
                        \<lparr>cus_email := ca_email a, cus_name := ca_name a,
                         cus_metadata := ca_metadata a\<rparr>\<rparr>]\<rparr>)"
  using assms by (simp add: handleCustomerUpdated_def unique_found patch_found)

lemma createOrUpdateCustomer_found:
  assumes "distinct (keys_of cus_stripeCustomerId (customers s))"
    and "i < length (customers s)"
    and "cus_stripeCustomerId (data (customers s ! i)) = ca_stripeCustomerId a"
  shows "createOrUpdateCustomer a s =
           Inr (ca_stripeCustomerId a,
                s\<lparr>customers := (customers s)
                  [i := (customers s ! i)
                     \<lparr>data := (data (customers s ! i))
                        \<lparr>cus_email := ca_email a, cus_name := ca_name a,
                         cus_metadata := ca_metadata a\<rparr>\<rparr>]\<rparr>)"
  using assms by (simp add: createOrUpdateCustomer_def unique_found patch_found)

text \<open>
  The subscription update handler on an existing record: status, currentPeriodEnd,
  cancelAtPeriodEnd and quantity take the incoming values; metadata, orgId and userId
  take the incoming value when there is one and keep the stored value otherwise.
\<close>

lemma handleSubscriptionUpdated_found:
  assumes "distinct (keys_of sub_stripeSubscriptionId (subscriptions s))"
    and "i < length (subscriptions s)"
    and "sub_stripeSubscriptionId (data (subscriptions s ! i)) = sua_stripeSubscriptionId u"
  shows "handleSubscriptionUpdated u s =
           Inr (s\<lparr>subscriptions := (subscriptions s)
                  [i := (subscriptions s ! i)
                     \<lparr>data := (data (subscriptions s ! i))
                        \<lparr>sub_status := sua_status u,
                         sub_currentPeriodEnd := sua_currentPeriodEnd u,
                         sub_cancelAtPeriodEnd := sua_cancelAtPeriodEnd u,
                         sub_quantity := sua_quantity u,
                         sub_metadata := (case sua_metadata u of
                                            None \<Rightarrow> sub_metadata (data (subscriptions s ! i))
                                          | Some m \<Rightarrow> Some m),
                         sub_orgId := (case Option.bind (sua_metadata u) (\<lambda>m. map_of m ''orgId'') of
                                         None \<Rightarrow> sub_orgId (data (subscriptions s ! i))
                                       | Some v \<Rightarrow> Some v),
                         sub_userId := (case Option.bind (sua_metadata u) (\<lambda>m. map_of m ''userId'') of
                                         None \<Rightarrow> sub_userId (data (subscriptions s ! i))
                                       | Some v \<Rightarrow> Some v)\<rparr>\<rparr>]\<rparr>)"
  using assms
  by (cases "sua_metadata u")
     (auto simp: handleSubscriptionUpdated_def unique_found patch_found spread_if_def get_prop_def
           Let_def split: option.splits)

lemma updateSubscriptionMetadata_found:
  assumes "distinct (keys_of sub_stripeSubscriptionId (subscriptions s))"
    and "i < length (subscriptions s)"
    and "sub_stripeSubscriptionId (data (subscriptions s ! i)) = usm_stripeSubscriptionId m"
  shows "updateSubscriptionMetadata m s =
           Inr (s\<lparr>subscriptions := (subscriptions s)
                  [i := (subscriptions s ! i)
                     \<lparr>data := (data (subscriptions s ! i))
                        \<lparr>sub_metadata := Some (usm_metadata m),
                         sub_orgId := usm_orgId m,
                         sub_userId := usm_userId m\<rparr>\<rparr>]\<rparr>)"
  using assms by (simp add: updateSubscriptionMetadata_def unique_found patch_found)

text \<open>
  Claim C10. On a store whose customer keys are unique, the customer-update handler and
  the \<open>createOrUpdateCustomer\<close> mutation, applied to the key of an existing customer,
  set email, name and metadata to exactly the incoming arguments: an absent argument
  (\<open>None\<close>) removes the stored field. The subscription update handler differs: with
  metadata absent from the call it leaves the stored metadata, orgId and userId as they
  were.
\<close>

theorem customer_patch_unconditional:
  assumes "distinct (keys_of cus_stripeCustomerId (customers s))"
    and "i < length (customers s)"
    and "cus_stripeCustomerId (data (customers s ! i)) = ca_stripeCustomerId a"
  shows "handleCustomerUpdated a s =
           Inr (s\<lparr>customers := (customers s)
                  [i := (customers s ! i)
                     \<lparr>data := (data (customers s ! i))
                        \<lparr>cus_email := ca_email a, cus_name := ca_name a,
                         cus_metadata := ca_metadata a\<rparr>\<rparr>]\<rparr>) \<and>
         createOrUpdateCustomer a s =
           Inr (ca_stripeCustomerId a,
                s\<lparr>customers := (customers s)
                  [i := (customers s ! i)
                     \<lparr>data := (data (customers s ! i))
                        \<lparr>cus_email := ca_email a, cus_name := ca_name a,
                         cus_metadata := ca_metadata a\<rparr>\<rparr>]\<rparr>) \<and>
         (distinct (keys_of sub_stripeSubscriptionId (subscriptions s)) \<and>
          j < length (subscriptions s) \<and>
          sub_stripeSubscriptionId (data (subscriptions s ! j)) = sua_stripeSubscriptionId u \<and>
          sua_metadata u = None
          \<longrightarrow> (\<exists>s'. handleSubscriptionUpdated u s = Inr s' \<and>
                 sub_metadata (data (subscriptions s' ! j)) = sub_metadata (data (subscriptions s ! j)) \<and>
                 sub_orgId (data (subscriptions s' ! j)) = sub_orgId (data (subscriptions s ! j)) \<and>
                 sub_userId (data (subscriptions s' ! j)) = sub_userId (data (subscriptions s ! j))))"
proof -
  have contrast: "\<exists>s'. handleSubscriptionUpdated u s = Inr s' \<and>
      sub_metadata (data (subscriptions s' ! j)) = sub_metadata (data (subscriptions s ! j)) \<and>
      sub_orgId (data (subscriptions s' ! j)) = sub_orgId (data (subscriptions s ! j)) \<and>
      sub_userId (data (subscriptions s' ! j)) = sub_userId (data (subscriptions s ! j))"
    if "distinct (keys_of sub_stripeSubscriptionId (subscriptions s))"
      and "j < length (subscriptions s)"
      and "sub_stripeSubscriptionId (data (subscriptions s ! j)) = sua_stripeSubscriptionId u"
      and "sua_metadata u = None"
    using that handleSubscriptionUpdated_found [of s j u] by simp
  from assms contrast show ?thesis
    by (simp add: handleCustomerUpdated_found createOrUpdateCustomer_found)
qed

theorem customer_patch_unconditional_witness:
  "handleCustomerUpdated
     \<lparr>ca_stripeCustomerId = ''cus_1'', ca_email = None, ca_name = Some ''Ada L.'',
      ca_metadata = None\<rparr> example_store =
     Inr (example_store\<lparr>customers :=
            [\<lparr>creationTime = 1700000000000,
              data = \<lparr>cus_stripeCustomerId = ''cus_1'', cus_email = None,
                      cus_name = Some ''Ada L.'', cus_metadata = None\<rparr>\<rparr>]\<rparr>) \<and>
   createOrUpdateCustomer
     \<lparr>ca_stripeCustomerId = ''cus_1'', ca_email = None, ca_name = Some ''Ada L.'',
      ca_metadata = None\<rparr> example_store =
     Inr (''cus_1'',
          example_store\<lparr>customers :=
            [\<lparr>creationTime = 1700000000000,
              data = \<lparr>cus_stripeCustomerId = ''cus_1'', cus_email = None,
                      cus_name = Some ''Ada L.'', cus_metadata = None\<rparr>\<rparr>]\<rparr>) \<and>
   (\<exists>s'. handleSubscriptionUpdated
            \<lparr>sua_stripeSubscriptionId = ''sub_1'', sua_status = ''past_due'',
             sua_currentPeriodEnd = 1705270400, sua_cancelAtPeriodEnd = True,
             sua_quantity = Some 4, sua_metadata = None\<rparr> example_store = Inr s' \<and>
          sub_metadata (data (subscriptions s' ! 0)) = Some [(''orgId'', ''org_1''), (''userId'', ''user_1'')] \<and>
          sub_orgId (data (subscriptions s' ! 0)) = Some ''org_1'' \<and>
          sub_userId (data (subscriptions s' ! 0)) = Some ''user_1'')"
  using customer_patch_unconditional
    [of example_store 0
        "\<lparr>ca_stripeCustomerId = ''cus_1'', ca_email = None, ca_name = Some ''Ada L.'',
          ca_metadata = None\<rparr>"
        0
        "\<lparr>sua_stripeSubscriptionId = ''sub_1'', sua_status = ''past_due'',
          sua_currentPeriodEnd = 1705270400, sua_cancelAtPeriodEnd = True,
          sua_quantity = Some 4, sua_metadata = None\<rparr>"]
  by (simp add: keys_of_def example_store_def example_customer_def example_subscription_def)

section \<open>Linkage fields of a subscription\<close>

text \<open>
  The webhook path keeps the linkage: an update whose metadata carries no \<open>orgId\<close>
  (no \<open>userId\<close>) leaves the stored \<open>orgId\<close> (\<open>userId\<close>) as it was, and one that carries a
  value stores it.
\<close>

lemma handleSubscriptionUpdated_linkage:
  assumes "distinct (keys_of sub_stripeSubscriptionId (subscriptions s))"
    and "i < length (subscriptions s)"
    and "sub_stripeSubscriptionId (data (subscriptions s ! i)) = sua_stripeSubscriptionId u"
  shows "\<exists>s'. handleSubscriptionUpdated u s = Inr s' \<and>
           sub_orgId (data (subscriptions s' ! i)) =
             (case Option.bind (sua_metadata u) (\<lambda>m. map_of m ''orgId'') of
                None \<Rightarrow> sub_orgId (data (subscriptions s ! i)) | Some v \<Rightarrow> Some v) \<and>
           sub_userId (data (subscriptions s' ! i)) =
             (case Option.bind (sua_metadata u) (\<lambda>m. map_of m ''userId'') of
                None \<Rightarrow> sub_userId (data (subscriptions s ! i)) | Some v \<Rightarrow> Some v)"
  using assms by (simp add: handleSubscriptionUpdated_found)

text \<open>
  Claim C2. The claim says that a subscription update that does not supply orgId and
  userId leaves the stored values unchanged, for the webhook handler and for
  \<open>updateSubscriptionMetadata\<close> alike. The webhook handler does so
  (\<open>handleSubscriptionUpdated_linkage\<close>). \<open>updateSubscriptionMetadata\<close> does not: it
  patches \<open>orgId: args.orgId, userId: args.userId\<close> without the guard of its sibling, so
  a call that omits them erases the stored orgId and userId. Here the subscription
  \<open>sub_1\<close> is linked to \<open>org_1\<close> and \<open>user_1\<close>, the call supplies metadata only, and the
  record ends with neither.
\<close>

theorem updateSubscriptionMetadata_erases_linkage:
  "sub_orgId (data (subscriptions example_store ! 0)) = Some ''org_1'' \<and>
   sub_userId (data (subscriptions example_store ! 0)) = Some ''user_1'' \<and>
   updateSubscriptionMetadata
     \<lparr>usm_stripeSubscriptionId = ''sub_1'', usm_metadata = [(''seats'', ''5'')],
      usm_orgId = None, usm_userId = None\<rparr> example_store =
   Inr (example_store\<lparr>subscriptions :=
          [\<lparr>creationTime = 1700000599000,
            data = example_subscription
              \<lparr>sub_metadata := Some [(''seats'', ''5'')], sub_orgId := None, sub_userId := None\<rparr>\<rparr>]\<rparr>)"
  by (simp add: updateSubscriptionMetadata_def withIndex_def patch_def example_store_def
      example_subscription_def)

section \<open>The customer reference of a payment\<close>

lemma payment_kept:
  assumes "i < length (payments s)"
    and "truthy_str (pay_stripeCustomerId (data (payments s ! i)))"
  shows "handlePaymentIntentSucceeded a s = Inr s' \<Longrightarrow>
           i < length (payments s') \<and> payments s' ! i = payments s ! i"
    and "updatePaymentCustomer pid cid s = Inr s' \<Longrightarrow>
           i < length (payments s') \<and> payments s' ! i = payments s ! i"
  using assms
  by (auto simp: handlePaymentIntentSucceeded_def updatePaymentCustomer_def patch_def Let_def
      nth_append nth_list_update
      split: sum.splits option.splits if_splits dest!: unique_withIndex_Some)

lemma payments_untouched:
  shows "handleCustomerCreated ca s = Inr s' \<Longrightarrow> payments s' = payments s"
    and "handleCustomerUpdated ca s = Inr s' \<Longrightarrow> payments s' = payments s"
    and "handleSubscriptionCreated sc s = Inr s' \<Longrightarrow> payments s' = payments s"
    and "handleSubscriptionUpdated su s = Inr s' \<Longrightarrow> payments s' = payments s"
    and "handleSubscriptionDeleted k s = Inr s' \<Longrightarrow> payments s' = payments s"
    and "handleCheckoutSessionCompleted ck s = Inr s' \<Longrightarrow> payments s' = payments s"
    and "handleInvoiceCreated ic s = Inr s' \<Longrightarrow> payments s' = payments s"
    and "handleInvoicePaid k amountPaid s = Inr s' \<Longrightarrow> payments s' = payments s"
    and "handleInvoicePaymentFailed k s = Inr s' \<Longrightarrow> payments s' = payments s"
  by (auto simp: handleCustomerCreated_def handleCustomerUpdated_def handleSubscriptionCreated_def
      handleSubscriptionUpdated_def handleSubscriptionDeleted_def handleCheckoutSessionCompleted_def
      handleInvoiceCreated_def handleInvoicePaid_def handleInvoicePaymentFailed_def Let_def
      split: sum.splits option.splits)

lemma processEvent_payment_kept:
  assumes "i < length (payments s)"
    and "truthy_str (pay_stripeCustomerId (data (payments s ! i)))"
  shows "i < length (payments (snd (processEvent stripe e s))) \<and>
         payments (snd (processEvent stripe e s)) ! i = payments s ! i"
proof -
  define P where "P = (\<lambda>s' :: store. i < length (payments s') \<and> payments s' ! i = payments s ! i)"
  have P: "P s" using assms by (simp add: P_def)
  have pay: "P s2" if "P s1" "handlePaymentIntentSucceeded a s1 = Inr s2" for a s1 s2
    using that assms(2) payment_kept(1) [of i s1 a s2] by (simp add: P_def)
  have backfill: "P s2" if "P s1" "updatePaymentCustomer p k s1 = Inr s2" for p k s1 s2
    using that assms(2) payment_kept(2) [of i s1 p k s2] by (simp add: P_def)
  have other: "P s2" if "P s1" "payments s2 = payments s1" for s1 s2
    using that by (simp add: P_def)
  have latest: "P (snd (store_latest_invoice stripe k s1))" if "P s1" for k s1
    using that
    by (auto simp: store_latest_invoice_def split: sum.splits intro: other
        dest: payments_untouched(7))
  have "P (snd (processEvent stripe e s))"
  proof (cases e)
    case (CheckoutSessionCompleted session)
    have first: "P (snd (runMutation (handleCheckoutSessionCompleted a) s))" for a
      by (rule runMutation_preserves [where P = P and s = s])
         (auto intro: P other [OF P] dest: payments_untouched(6))
    have second: "P (snd (if c then runMutation (updatePaymentCustomer p k) s1 else (None, s1)))"
      if "P s1" for c p k s1
      using that by (auto intro: runMutation_preserves [where P = P] backfill)
    have third: "P (snd (if c then store_latest_invoice stripe k s2 else (None, s2)))"
      if "P s2" for c k s2
      using that by (simp add: latest)
    show ?thesis
      unfolding CheckoutSessionCompleted processEvent.simps
      by (intro then_do_preserves [where P = P] first second third)
  next
    case (PaymentIntentSucceeded paymentIntent)
    show ?thesis
      unfolding PaymentIntentSucceeded processEvent.simps
      by (auto intro: runMutation_preserves [where P = P] pay P simp: P)
  qed (auto intro!: other [OF P] runMutation_payments simp: P dest: payments_untouched
        split: sum.splits)
  then show ?thesis by (simp add: P_def)
qed

text \<open>
  Claim C3. A payment record whose customer reference is set (neither absent nor the
  empty string) is left exactly as it is by the payment-intent-succeeded handler, by the
  backfill mutation \<open>updatePaymentCustomer\<close> and by the dispatch of any event: its
  customer reference is never cleared or overwritten. Each of the two payment mutations
  leaves every existing record either untouched or, when the record had no customer
  reference, with that one field filled in from the call.
\<close>

theorem payment_customer_monotonic:
  assumes "i < length (payments s)"
    and "truthy_str (pay_stripeCustomerId (data (payments s ! i)))"
  shows "(\<forall>s'. handlePaymentIntentSucceeded a s = Inr s'
            \<longrightarrow> i < length (payments s') \<and> payments s' ! i = payments s ! i) \<and>
         (\<forall>s'. updatePaymentCustomer pid cid s = Inr s'
            \<longrightarrow> i < length (payments s') \<and> payments s' ! i = payments s ! i) \<and>
         i < length (payments (snd (processEvent stripe e s))) \<and>
         payments (snd (processEvent stripe e s)) ! i = payments s ! i \<and>
         (\<forall>s' j. handlePaymentIntentSucceeded a s = Inr s' \<and> j < length (payments s)
            \<longrightarrow> payments s' ! j = payments s ! j \<or>
                \<not> truthy_str (pay_stripeCustomerId (data (payments s ! j))) \<and>
                payments s' ! j = (payments s ! j)
                  \<lparr>data := (data (payments s ! j))\<lparr>pay_stripeCustomerId := pia_stripeCustomerId a\<rparr>\<rparr>) \<and>
         (\<forall>s' j. updatePaymentCustomer pid cid s = Inr s' \<and> j < length (payments s)
            \<longrightarrow> payments s' ! j = payments s ! j \<or>
                \<not> truthy_str (pay_stripeCustomerId (data (payments s ! j))) \<and>
                payments s' ! j = (payments s ! j)
                  \<lparr>data := (data (payments s ! j))\<lparr>pay_stripeCustomerId := Some cid\<rparr>\<rparr>)"
proof -
  have fill1: "payments s' ! j = payments s ! j \<or>
      \<not> truthy_str (pay_stripeCustomerId (data (payments s ! j))) \<and>
      payments s' ! j = (payments s ! j)
        \<lparr>data := (data (payments s ! j))\<lparr>pay_stripeCustomerId := pia_stripeCustomerId a\<rparr>\<rparr>"
    if "handlePaymentIntentSucceeded a s = Inr s'" "j < length (payments s)" for s' j
    using that
    by (auto simp: handlePaymentIntentSucceeded_def patch_def Let_def nth_append nth_list_update
        split: sum.splits option.splits if_splits dest!: unique_withIndex_Some)
  have fill2: "payments s' ! j = payments s ! j \<or>
      \<not> truthy_str (pay_stripeCustomerId (data (payments s ! j))) \<and>
      payments s' ! j = (payments s ! j)
        \<lparr>data := (data (payments s ! j))\<lparr>pay_stripeCustomerId := Some cid\<rparr>\<rparr>"
    if "updatePaymentCustomer pid cid s = Inr s'" "j < length (payments s)" for s' j
    using that
    by (auto simp: updatePaymentCustomer_def patch_def nth_list_update
        split: sum.splits option.splits if_splits dest!: unique_withIndex_Some)
  from assms payment_kept [OF assms] processEvent_payment_kept [OF assms] fill1 fill2
  show ?thesis by blast
qed

theorem payment_customer_monotonic_witness:
  "handlePaymentIntentSucceeded
     \<lparr>pia_stripePaymentIntentId = ''pi_1'', pia_stripeCustomerId = Some ''cus_2'',
      pia_amount = 1999, pia_currency = ''usd'', pia_status = ''succeeded'',
      pia_created = 1700000000, pia_metadata = None\<rparr> example_store = Inr example_store \<and>
   updatePaymentCustomer ''pi_1'' ''cus_2'' example_store = Inr example_store \<and>
   pay_stripeCustomerId (data (payments example_store ! 0)) = Some ''cus_1''"
  using payment_customer_monotonic
    [of 0 example_store
        "\<lparr>pia_stripePaymentIntentId = ''pi_1'', pia_stripeCustomerId = Some ''cus_2'',
          pia_amount = 1999, pia_currency = ''usd'', pia_status = ''succeeded'',
          pia_created = 1700000000, pia_metadata = None\<rparr>"
        "''pi_1''" "''cus_2''" example_sdk "OtherEvent ''charge.refunded''"]
  by (simp add: handlePaymentIntentSucceeded_def updatePaymentCustomer_def withIndex_def
      example_store_def example_payment_def)

section \<open>Replaying a create\<close>

lemma customer_created_twice:
  assumes "distinct (keys_of cus_stripeCustomerId (customers s))"
  shows "\<exists>s1. handleCustomerCreated a s = Inr s1 \<and>
           length (records_for cus_stripeCustomerId (ca_stripeCustomerId a) (customers s1)) = 1 \<and>
           (\<forall>a'. ca_stripeCustomerId a' = ca_stripeCustomerId a
              \<longrightarrow> handleCustomerCreated a' s1 = Inr s1)"
proof (cases "ca_stripeCustomerId a \<in> set (keys_of cus_stripeCustomerId (customers s))")
  case True
  then obtain i where i: "i < length (customers s)"
      "cus_stripeCustomerId (data (customers s ! i)) = ca_stripeCustomerId a"
    by (auto simp: in_keys_conv)
  with assms have "handleCustomerCreated a' s = Inr s"
    if "ca_stripeCustomerId a' = ca_stripeCustomerId a" for a'
    using that by (simp add: handleCustomerCreated_def unique_found)
  with assms True show ?thesis by (simp add: records_for_present)
next
  case False
  then show ?thesis
    by (simp add: handleCustomerCreated_def unique_absent unique_after_insert new_doc_def
        records_for_append records_for_absent)
qed

lemma subscription_created_twice:
  assumes "distinct (keys_of sub_stripeSubscriptionId (subscriptions s))"
  shows "\<exists>s1. handleSubscriptionCreated a s = Inr s1 \<and>
           length (records_for sub_stripeSubscriptionId (sca_stripeSubscriptionId a)
                     (subscriptions s1)) = 1 \<and>
           (\<forall>a'. sca_stripeSubscriptionId a' = sca_stripeSubscriptionId a
              \<longrightarrow> handleSubscriptionCreated a' s1 = Inr s1)"
proof (cases "sca_stripeSubscriptionId a \<in> set (keys_of sub_stripeSubscriptionId (subscriptions s))")
  case True
  then obtain i where i: "i < length (subscriptions s)"
      "sub_stripeSubscriptionId (data (subscriptions s ! i)) = sca_stripeSubscriptionId a"
    by (auto simp: in_keys_conv)
  with assms have "handleSubscriptionCreated a' s = Inr s"
    if "sca_stripeSubscriptionId a' = sca_stripeSubscriptionId a" for a'
    using that by (simp add: handleSubscriptionCreated_def unique_found)
  with assms True show ?thesis by (simp add: records_for_present)
next
  case False
  then show ?thesis
    by (simp add: handleSubscriptionCreated_def unique_absent unique_after_insert new_doc_def
        records_for_append records_for_absent Let_def)
qed

lemma subscription_linkage_returns:
  assumes "distinct (keys_of sub_stripeSubscriptionId (subscriptions s))"
  shows "\<exists>l. subscription_linkage sid s = Inr l"
proof (cases "truthy_str sid \<and> the sid \<in> set (keys_of sub_stripeSubscriptionId (subscriptions s))")
  case True
  then obtain i where i: "i < length (subscriptions s)"
      "sub_stripeSubscriptionId (data (subscriptions s ! i)) = the sid"
    by (auto simp: in_keys_conv)
  with assms True show ?thesis by (simp add: subscription_linkage_def unique_found)
next
  case False
  then show ?thesis by (auto simp: subscription_linkage_def unique_absent)
qed

lemma invoice_created_twice:
  assumes "distinct (keys_of inv_stripeInvoiceId (invoices s))"
    and "distinct (keys_of sub_stripeSubscriptionId (subscriptions s))"
  shows "\<exists>s1. handleInvoiceCreated a s = Inr s1 \<and>
           length (records_for inv_stripeInvoiceId (ica_stripeInvoiceId a) (invoices s1)) = 1 \<and>
           (\<forall>a'. ica_stripeInvoiceId a' = ica_stripeInvoiceId a
              \<longrightarrow> handleInvoiceCreated a' s1 = Inr s1)"
proof (cases "ica_stripeInvoiceId a \<in> set (keys_of inv_stripeInvoiceId (invoices s))")
  case True
  then obtain i where i: "i < length (invoices s)"
      "inv_stripeInvoiceId (data (invoices s ! i)) = ica_stripeInvoiceId a"
    by (auto simp: in_keys_conv)
  with assms have "handleInvoiceCreated a' s = Inr s"
    if "ica_stripeInvoiceId a' = ica_stripeInvoiceId a" for a'
    using that by (simp add: handleInvoiceCreated_def unique_found)
  with assms True show ?thesis by (simp add: records_for_present)
next
  case False
  from assms(2) obtain l where "subscription_linkage (ica_stripeSubscriptionId a) s = Inr l"
    using subscription_linkage_returns by blast
  with False show ?thesis
    by (cases l)
       (simp add: handleInvoiceCreated_def unique_absent unique_after_insert new_doc_def
        records_for_append records_for_absent)
qed

lemma payment_created_twice:
  assumes "distinct (keys_of pay_stripePaymentIntentId (payments s))"
  shows "\<exists>s1. handlePaymentIntentSucceeded a s = Inr s1 \<and>
           length (records_for pay_stripePaymentIntentId (pia_stripePaymentIntentId a)
                     (payments s1)) = 1 \<and>
           handlePaymentIntentSucceeded a s1 = Inr s1"
proof (cases "pia_stripePaymentIntentId a \<in> set (keys_of pay_stripePaymentIntentId (payments s))")
  case True
  then obtain i where i: "i < length (payments s)"
      "pay_stripePaymentIntentId (data (payments s ! i)) = pia_stripePaymentIntentId a"
    by (auto simp: in_keys_conv)
  let ?fill = "truthy_str (pia_stripeCustomerId a) \<and>
               \<not> truthy_str (pay_stripeCustomerId (data (payments s ! i)))"
  show ?thesis
  proof (cases ?fill)
    case False
    with assms i have "handlePaymentIntentSucceeded a s = Inr s"
      by (auto simp: handlePaymentIntentSucceeded_def unique_found)
    with assms True show ?thesis by (simp add: records_for_present)
  next
    case fill: True
    let ?t = "(payments s)[i := (payments s ! i)
                \<lparr>data := (data (payments s ! i))\<lparr>pay_stripeCustomerId := pia_stripeCustomerId a\<rparr>\<rparr>]"
    let ?s1 = "s\<lparr>payments := ?t\<rparr>"
    from assms i fill have 1: "handlePaymentIntentSucceeded a s = Inr ?s1"
      by (simp add: handlePaymentIntentSucceeded_def unique_found patch_found)
    have keys: "keys_of pay_stripePaymentIntentId ?t = keys_of pay_stripePaymentIntentId (payments s)"
      using i by (simp add: keys_of_update_same)
    with assms i fill have 2: "handlePaymentIntentSucceeded a ?s1 = Inr ?s1"
      by (simp add: handlePaymentIntentSucceeded_def unique_found [where i = i])
    from keys assms True have 3:
      "length (records_for pay_stripePaymentIntentId (pia_stripePaymentIntentId a) (payments ?s1)) = 1"
      by (simp add: records_for_present)
    from 1 2 3 show ?thesis by blast
  qed
next
  case False
  then show ?thesis
    by (simp add: handlePaymentIntentSucceeded_def unique_absent unique_after_insert new_doc_def
        records_for_append records_for_absent Let_def)
qed

text \<open>
  Claim C4. From any store whose keys are unique, as the data model declares them and
  as every mutation keeps them, each create handler (customer, subscription, invoice,
  payment) returns normally, leaves exactly one record for the key of the call, and a
  second application to the resulting store returns that store unchanged. For customers,
  subscriptions and invoices the second application may carry any fields with the same
  key; for payments it is the same call again (a later call with another customer may
  fill in a missing customer reference).
\<close>

theorem create_idempotent:
  assumes "unique_keys s"
  shows "(\<exists>s1. handleCustomerCreated c s = Inr s1 \<and>
            length (records_for cus_stripeCustomerId (ca_stripeCustomerId c) (customers s1)) = 1 \<and>
            handleCustomerCreated c s1 = Inr s1 \<and>
            (\<forall>c'. ca_stripeCustomerId c' = ca_stripeCustomerId c
               \<longrightarrow> handleCustomerCreated c' s1 = Inr s1)) \<and>
         (\<exists>s1. handleSubscriptionCreated b s = Inr s1 \<and>
            length (records_for sub_stripeSubscriptionId (sca_stripeSubscriptionId b)
                      (subscriptions s1)) = 1 \<and>
            handleSubscriptionCreated b s1 = Inr s1 \<and>
            (\<forall>b'. sca_stripeSubscriptionId b' = sca_stripeSubscriptionId b
               \<longrightarrow> handleSubscriptionCreated b' s1 = Inr s1)) \<and>
         (\<exists>s1. handleInvoiceCreated v s = Inr s1 \<and>
            length (records_for inv_stripeInvoiceId (ica_stripeInvoiceId v) (invoices s1)) = 1 \<and>
            handleInvoiceCreated v s1 = Inr s1 \<and>
            (\<forall>v'. ica_stripeInvoiceId v' = ica_stripeInvoiceId v
               \<longrightarrow> handleInvoiceCreated v' s1 = Inr s1)) \<and>
         (\<exists>s1. handlePaymentIntentSucceeded p s = Inr s1 \<and>
            length (records_for pay_stripePaymentIntentId (pia_stripePaymentIntentId p)
                      (payments s1)) = 1 \<and>
            handlePaymentIntentSucceeded p s1 = Inr s1)"
proof -
  from assms have d:
    "distinct (keys_of cus_stripeCustomerId (customers s))"
    "distinct (keys_of sub_stripeSubscriptionId (subscriptions s))"
    "distinct (keys_of inv_stripeInvoiceId (invoices s))"
    "distinct (keys_of pay_stripePaymentIntentId (payments s))"
    by (simp_all add: unique_keys_def)
  from customer_created_twice [OF d(1), of c] have 1:
    "\<exists>s1. handleCustomerCreated c s = Inr s1 \<and>
       length (records_for cus_stripeCustomerId (ca_stripeCustomerId c) (customers s1)) = 1 \<and>
       handleCustomerCreated c s1 = Inr s1 \<and>
       (\<forall>c'. ca_stripeCustomerId c' = ca_stripeCustomerId c \<longrightarrow> handleCustomerCreated c' s1 = Inr s1)"
    by blast
  from subscription_created_twice [OF d(2), of b] have 2:
    "\<exists>s1. handleSubscriptionCreated b s = Inr s1 \<and>
       length (records_for sub_stripeSubscriptionId (sca_stripeSubscriptionId b) (subscriptions s1)) = 1 \<and>
       handleSubscriptionCreated b s1 = Inr s1 \<and>
       (\<forall>b'. sca_stripeSubscriptionId b' = sca_stripeSubscriptionId b
          \<longrightarrow> handleSubscriptionCreated b' s1 = Inr s1)"
    by blast
  from invoice_created_twice [OF d(3) d(2), of v] have 3:
    "\<exists>s1. handleInvoiceCreated v s = Inr s1 \<and>
       length (records_for inv_stripeInvoiceId (ica_stripeInvoiceId v) (invoices s1)) = 1 \<and>
       handleInvoiceCreated v s1 = Inr s1 \<and>
       (\<forall>v'. ica_stripeInvoiceId v' = ica_stripeInvoiceId v \<longrightarrow> handleInvoiceCreated v' s1 = Inr s1)"
    by blast
  from 1 2 3 payment_created_twice [OF d(4), of p] show ?thesis by blast
qed

theorem create_idempotent_witness:
  "(\<exists>s1. handleCustomerCreated
            \<lparr>ca_stripeCustomerId = ''cus_7'', ca_email = Some ''bob@example.com'', ca_name = None,
             ca_metadata = None\<rparr> empty_store = Inr s1 \<and>
          length (customers s1) = 1 \<and>
          handleCustomerCreated
            \<lparr>ca_stripeCustomerId = ''cus_7'', ca_email = Some ''bob@example.com'', ca_name = None,
             ca_metadata = None\<rparr> s1 = Inr s1) \<and>
   (\<exists>s1. handlePaymentIntentSucceeded
            \<lparr>pia_stripePaymentIntentId = ''pi_1'', pia_stripeCustomerId = Some ''cus_1'',
             pia_amount = 1999, pia_currency = ''usd'', pia_status = ''succeeded'',
             pia_created = 1700000000, pia_metadata = None\<rparr> empty_store = Inr s1 \<and>
          length (payments s1) = 1 \<and>
          handlePaymentIntentSucceeded
            \<lparr>pia_stripePaymentIntentId = ''pi_1'', pia_stripeCustomerId = Some ''cus_1'',
             pia_amount = 1999, pia_currency = ''usd'', pia_status = ''succeeded'',
             pia_created = 1700000000, pia_metadata = None\<rparr> s1 = Inr s1)"
  using create_idempotent
    [of empty_store
        "\<lparr>ca_stripeCustomerId = ''cus_7'', ca_email = Some ''bob@example.com'', ca_name = None,
          ca_metadata = None\<rparr>"
        "\<lparr>sca_stripeSubscriptionId = ''sub_7'', sca_stripeCustomerId = ''cus_7'',
          sca_status = ''active'', sca_currentPeriodEnd = 0, sca_cancelAtPeriodEnd = False,
          sca_quantity = Some 1, sca_priceId = ''price_1'', sca_metadata = None\<rparr>"
        "\<lparr>ica_stripeInvoiceId = ''in_7'', ica_stripeCustomerId = ''cus_7'',
          ica_stripeSubscriptionId = Some ''sub_7'', ica_status = ''open'', ica_amountDue = 10,
          ica_amountPaid = 0, ica_created = 1700000000\<rparr>"
        "\<lparr>pia_stripePaymentIntentId = ''pi_1'', pia_stripeCustomerId = Some ''cus_1'',
          pia_amount = 1999, pia_currency = ''usd'', pia_status = ''succeeded'',
          pia_created = 1700000000, pia_metadata = None\<rparr>"]
  by (simp add: unique_keys_def keys_of_def empty_store_def handleCustomerCreated_def
      handleSubscriptionCreated_def handleInvoiceCreated_def handlePaymentIntentSucceeded_def
      withIndex_def new_doc_def Let_def)

section \<open>Dispatch of a created subscription\<close>

text \<open>
  Claim C9. The dispatch of \<open>customer.subscription.created\<close> runs the subscription
  create with currentPeriodEnd and quantity read from the first line item of the event:
  currentPeriodEnd is 0 and quantity is 1 when there is no line item or the line item
  lacks the value. When the store has no record for the subscription yet, the run adds
  one record with those values and with orgId and userId read from the event's metadata.
\<close>

theorem subscription_created_event:
  "processEvent stripe (SubscriptionCreated sub) s =
     runMutation (handleSubscriptionCreated
       \<lparr>sca_stripeSubscriptionId = ss_id sub,
        sca_stripeCustomerId = ss_customer sub,
        sca_status = ss_status sub,
        sca_currentPeriodEnd =
          (case ss_items sub of [] \<Rightarrow> 0
           | item # _ \<Rightarrow> (case si_current_period_end item of None \<Rightarrow> 0 | Some t \<Rightarrow> t)),
        sca_cancelAtPeriodEnd = (case ss_cancel_at_period_end sub of None \<Rightarrow> False | Some b \<Rightarrow> b),
        sca_quantity =
          Some (case ss_items sub of [] \<Rightarrow> 1
                | item # _ \<Rightarrow> (case si_quantity item of None \<Rightarrow> 1 | Some q \<Rightarrow> q)),
        sca_priceId = (case ss_items sub of [] \<Rightarrow> [] | item # _ \<Rightarrow> si_price_id item),
        sca_metadata = Some (case ss_metadata sub of None \<Rightarrow> [] | Some m \<Rightarrow> m)\<rparr>) s \<and>
   (ss_id sub \<notin> set (keys_of sub_stripeSubscriptionId (subscriptions s)) \<longrightarrow>
    processEvent stripe (SubscriptionCreated sub) s =
      (None, s\<lparr>subscriptions := subscriptions s @
         [\<lparr>creationTime = clock s,
           data = \<lparr>sub_stripeSubscriptionId = ss_id sub,
                   sub_stripeCustomerId = ss_customer sub,
                   sub_status = ss_status sub,
                   sub_currentPeriodEnd =
                     (case ss_items sub of [] \<Rightarrow> 0
                      | item # _ \<Rightarrow> (case si_current_period_end item of None \<Rightarrow> 0 | Some t \<Rightarrow> t)),
                   sub_cancelAtPeriodEnd =
                     (case ss_cancel_at_period_end sub of None \<Rightarrow> False | Some b \<Rightarrow> b),
                   sub_quantity =
                     Some (case ss_items sub of [] \<Rightarrow> 1
                           | item # _ \<Rightarrow> (case si_quantity item of None \<Rightarrow> 1 | Some q \<Rightarrow> q)),
                   sub_priceId = (case ss_items sub of [] \<Rightarrow> [] | item # _ \<Rightarrow> si_price_id item),
                   sub_metadata = Some (case ss_metadata sub of None \<Rightarrow> [] | Some m \<Rightarrow> m),
                   sub_orgId = (case ss_metadata sub of None \<Rightarrow> None | Some m \<Rightarrow> map_of m ''orgId''),
                   sub_userId = (case ss_metadata sub of None \<Rightarrow> None | Some m \<Rightarrow> map_of m ''userId'')\<rparr>\<rparr>]\<rparr>))"
proof -
  have args:
    "num_or (Option.bind (first_item (ss_items sub)) si_current_period_end) 0 =
       (case ss_items sub of [] \<Rightarrow> 0
        | item # _ \<Rightarrow> (case si_current_period_end item of None \<Rightarrow> 0 | Some t \<Rightarrow> t))"
    "nullish (ss_cancel_at_period_end sub) False =
       (case ss_cancel_at_period_end sub of None \<Rightarrow> False | Some b \<Rightarrow> b)"
    "nullish (Option.bind (first_item (ss_items sub)) si_quantity) 1 =
       (case ss_items sub of [] \<Rightarrow> 1
        | item # _ \<Rightarrow> (case si_quantity item of None \<Rightarrow> 1 | Some q \<Rightarrow> q))"
    "str_or (map_option si_price_id (first_item (ss_items sub))) [] =
       (case ss_items sub of [] \<Rightarrow> [] | item # _ \<Rightarrow> si_price_id item)"
    "metadata_or_empty (ss_metadata sub) = (case ss_metadata sub of None \<Rightarrow> [] | Some m \<Rightarrow> m)"
    by (auto split: list.splits option.splits)
  show ?thesis
    by (auto simp: args runMutation_def handleSubscriptionCreated_def unique_absent new_doc_def
        get_prop_def Let_def split: option.splits)
qed

theorem subscription_created_event_witness:
  "processEvent example_sdk
     (SubscriptionCreated
        \<lparr>ss_id = ''sub_2'', ss_customer = ''cus_1'', ss_status = ''active'',
         ss_items = [\<lparr>si_current_period_end = Some 1702592000, si_quantity = None,
                      si_price_id = ''price_1''\<rparr>],
         ss_cancel_at_period_end = Some False,
         ss_metadata = Some [(''orgId'', ''org_1''), (''userId'', ''user_1'')],
         ss_latest_invoice = None\<rparr>) empty_store =
     (None, empty_store\<lparr>subscriptions :=
        [\<lparr>creationTime = 1700000600000,
          data = \<lparr>sub_stripeSubscriptionId = ''sub_2'', sub_stripeCustomerId = ''cus_1'',
                  sub_status = ''active'', sub_currentPeriodEnd = 1702592000,
                  sub_cancelAtPeriodEnd = False, sub_quantity = Some 1, sub_priceId = ''price_1'',
                  sub_metadata = Some [(''orgId'', ''org_1''), (''userId'', ''user_1'')],
                  sub_orgId = Some ''org_1'', sub_userId = Some ''user_1''\<rparr>\<rparr>]\<rparr>)"
  using subscription_created_event
    [of example_sdk
        "\<lparr>ss_id = ''sub_2'', ss_customer = ''cus_1'', ss_status = ''active'',
          ss_items = [\<lparr>si_current_period_end = Some 1702592000, si_quantity = None,
                       si_price_id = ''price_1''\<rparr>],
          ss_cancel_at_period_end = Some False,
          ss_metadata = Some [(''orgId'', ''org_1''), (''userId'', ''user_1'')],
          ss_latest_invoice = None\<rparr>"
        empty_store]
  by (simp add: keys_of_def empty_store_def)

section \<open>The guards of a succeeded payment intent\<close>

text \<open>
  The payment handler call that the dispatch of \<open>payment_intent.succeeded\<close> makes once
  no guard has tripped.
\<close>

lemma payment_intent_dispatch:
  assumes "\<not> is_subscription_payment stripe p"
  shows "processEvent stripe (PaymentIntentSucceeded p) s =
     (if truthy_str (pi_customer p) \<and> recentSubscription p s \<noteq> None then (None, s)
      else runMutation (handlePaymentIntentSucceeded
             \<lparr>pia_stripePaymentIntentId = pi_id p,
              pia_stripeCustomerId = (if truthy_str (pi_customer p) then pi_customer p else None),
              pia_amount = pi_amount p,
              pia_currency = pi_currency p,
              pia_status = pi_status p,
              pia_created = pi_created p,
              pia_metadata = Some (metadata_or_empty (pi_metadata p))\<rparr>) s)"
  using assms by simp

text \<open>
  Claim C6. For a \<open>payment_intent.succeeded\<close> event whose payment intent references an
  invoice: when the remote lookup returns an invoice that has a subscription, the
  dispatch completes with the store unchanged (the payment handler does not run, no
  payment record is created). When the lookup throws, the exception is caught and the
  dispatch goes on as for a payment that is no subscription payment: it makes the check
  for recent subscriptions of the customer and, unless that check skips, runs the payment
  handler with the fields of the payment intent; so does a lookup that returns an invoice
  without a subscription. In particular the dispatch after a failed lookup is the
  dispatch of the same payment intent without its invoice reference, and when the store
  has no payment with that ID it ends with the payment record inserted.
\<close>

theorem payment_intent_invoice_guard:
  assumes "truthy_str (pi_invoice p)"
  shows "(\<forall>invoice. invoices_retrieve stripe (the (pi_invoice p)) = Inr invoice \<and>
                    truthy_js (iv_subscription invoice)
            \<longrightarrow> processEvent stripe (PaymentIntentSucceeded p) s = (None, s)) \<and>
         ((\<exists>err. invoices_retrieve stripe (the (pi_invoice p)) = Inl err) \<or>
          (\<exists>invoice. invoices_retrieve stripe (the (pi_invoice p)) = Inr invoice \<and>
                      \<not> truthy_js (iv_subscription invoice))
            \<longrightarrow> processEvent stripe (PaymentIntentSucceeded p) s =
                  (if truthy_str (pi_customer p) \<and> recentSubscription p s \<noteq> None then (None, s)
                   else runMutation (handlePaymentIntentSucceeded
                          \<lparr>pia_stripePaymentIntentId = pi_id p,
                           pia_stripeCustomerId =
                             (if truthy_str (pi_customer p) then pi_customer p else None),
                           pia_amount = pi_amount p,
                           pia_currency = pi_currency p,
                           pia_status = pi_status p,
                           pia_created = pi_created p,
                           pia_metadata = Some (case pi_metadata p of None \<Rightarrow> [] | Some m \<Rightarrow> m)\<rparr>) s) \<and>
                processEvent stripe (PaymentIntentSucceeded p) s =
                  processEvent stripe (PaymentIntentSucceeded (p\<lparr>pi_invoice := None\<rparr>)) s \<and>
                (pi_id p \<notin> set (keys_of pay_stripePaymentIntentId (payments s)) \<and>
                 (\<not> truthy_str (pi_customer p) \<or>
                  the (pi_customer p) \<notin> set (keys_of sub_stripeCustomerId (subscriptions s)))
                 \<longrightarrow> processEvent stripe (PaymentIntentSucceeded p) s =
                       (None, s\<lparr>payments := payments s @
                          [\<lparr>creationTime = clock s,
                            data = \<lparr>pay_stripePaymentIntentId = pi_id p,
                                    pay_stripeCustomerId =
                                      (if truthy_str (pi_customer p) then pi_customer p else None),
                                    pay_amount = pi_amount p,
                                    pay_currency = pi_currency p,
                                    pay_status = pi_status p,
                                    pay_created = pi_created p,
                                    pay_metadata = Some (case pi_metadata p of None \<Rightarrow> [] | Some m \<Rightarrow> m),
                                    pay_orgId = (case pi_metadata p of None \<Rightarrow> None
                                                 | Some m \<Rightarrow> map_of m ''orgId''),
                                    pay_userId = (case pi_metadata p of None \<Rightarrow> None
                                                  | Some m \<Rightarrow> map_of m ''userId'')\<rparr>\<rparr>]\<rparr>)))"
proof (intro conjI allI impI)
  fix invoice
  assume "invoices_retrieve stripe (the (pi_invoice p)) = Inr invoice \<and>
          truthy_js (iv_subscription invoice)"
  with assms have "is_subscription_payment stripe p"
    by (simp add: is_subscription_payment_def)
  then show "processEvent stripe (PaymentIntentSucceeded p) s = (None, s)" by simp
next
  assume proceeds:
    "(\<exists>err. invoices_retrieve stripe (the (pi_invoice p)) = Inl err) \<or>
     (\<exists>invoice. invoices_retrieve stripe (the (pi_invoice p)) = Inr invoice \<and>
                 \<not> truthy_js (iv_subscription invoice))"
  then have no_guard: "\<not> is_subscription_payment stripe p"
    by (auto simp: is_subscription_payment_def)
  have md: "metadata_or_empty (pi_metadata p) = (case pi_metadata p of None \<Rightarrow> [] | Some m \<Rightarrow> m)"
    by (cases "pi_metadata p") simp_all
  from payment_intent_dispatch [OF no_guard, of s]
  show dispatch: "processEvent stripe (PaymentIntentSucceeded p) s =
      (if truthy_str (pi_customer p) \<and> recentSubscription p s \<noteq> None then (None, s)
       else runMutation (handlePaymentIntentSucceeded
              \<lparr>pia_stripePaymentIntentId = pi_id p,
               pia_stripeCustomerId = (if truthy_str (pi_customer p) then pi_customer p else None),
               pia_amount = pi_amount p,
               pia_currency = pi_currency p,
               pia_status = pi_status p,
               pia_created = pi_created p,
               pia_metadata = Some (case pi_metadata p of None \<Rightarrow> [] | Some m \<Rightarrow> m)\<rparr>) s)"
    by (simp only: md)
  have no_reference: "\<not> is_subscription_payment stripe (p\<lparr>pi_invoice := None\<rparr>)"
    by (simp add: is_subscription_payment_def)
  have same_scan: "recentSubscription (p\<lparr>pi_invoice := None\<rparr>) s = recentSubscription p s"
    by (simp add: recentSubscription_def)
  show "processEvent stripe (PaymentIntentSucceeded p) s =
        processEvent stripe (PaymentIntentSucceeded (p\<lparr>pi_invoice := None\<rparr>)) s"
    by (auto simp: no_guard no_reference same_scan)
  assume fresh:
    "pi_id p \<notin> set (keys_of pay_stripePaymentIntentId (payments s)) \<and>
     (\<not> truthy_str (pi_customer p) \<or>
      the (pi_customer p) \<notin> set (keys_of sub_stripeCustomerId (subscriptions s)))"
  have no_recent: "recentSubscription p s = None" if "truthy_str (pi_customer p)"
  proof -
    from fresh that
    have "the (pi_customer p) \<notin> set (keys_of sub_stripeCustomerId (subscriptions s))"
      by blast
    then have "withIndex sub_stripeCustomerId (the (pi_customer p)) (subscriptions s) = []"
      by (rule withIndex_absent)
    then show ?thesis
      by (simp add: recentSubscription_def listSubscriptions_def collect_def Let_def)
  qed
  from fresh have absent: "pi_id p \<notin> set (keys_of pay_stripePaymentIntentId (payments s))"
    by blast
  show "processEvent stripe (PaymentIntentSucceeded p) s =
        (None, s\<lparr>payments := payments s @
           [\<lparr>creationTime = clock s,
             data = \<lparr>pay_stripePaymentIntentId = pi_id p,
                     pay_stripeCustomerId =
                       (if truthy_str (pi_customer p) then pi_customer p else None),
                     pay_amount = pi_amount p,
                     pay_currency = pi_currency p,
                     pay_status = pi_status p,
                     pay_created = pi_created p,
                     pay_metadata = Some (case pi_metadata p of None \<Rightarrow> [] | Some m \<Rightarrow> m),
                     pay_orgId = (case pi_metadata p of None \<Rightarrow> None
                                  | Some m \<Rightarrow> map_of m ''orgId''),
                     pay_userId = (case pi_metadata p of None \<Rightarrow> None
                                   | Some m \<Rightarrow> map_of m ''userId'')\<rparr>\<rparr>]\<rparr>)"
    unfolding dispatch
    using absent no_recent
    by (cases "pi_metadata p")
       (auto simp: runMutation_def handlePaymentIntentSucceeded_def unique_absent new_doc_def
          get_prop_def Let_def)
qed

theorem payment_intent_invoice_guard_witness:
  "processEvent example_sdk
     (PaymentIntentSucceeded (example_payment_intent\<lparr>pi_invoice := Some ''in_1''\<rparr>)) example_store =
     (None, example_store) \<and>
   invoices_retrieve example_sdk ''in_404'' = Inl (StripeError ''No such invoice'') \<and>
   processEvent example_sdk
     (PaymentIntentSucceeded
        (example_payment_intent\<lparr>pi_invoice := Some ''in_404'', pi_customer := Some ''cus_2''\<rparr>))
     example_store =
     (None, example_store\<lparr>payments := payments example_store @
        [\<lparr>creationTime = 1700000600000,
          data = \<lparr>pay_stripePaymentIntentId = ''pi_2'', pay_stripeCustomerId = Some ''cus_2'',
                  pay_amount = 4900, pay_currency = ''usd'', pay_status = ''succeeded'',
                  pay_created = 1700000599, pay_metadata = Some [(''userId'', ''user_1'')],
                  pay_orgId = None, pay_userId = Some ''user_1''\<rparr>\<rparr>]\<rparr>)"
  using
    payment_intent_invoice_guard
      [of "example_payment_intent\<lparr>pi_invoice := Some ''in_1''\<rparr>" example_sdk example_store]
    payment_intent_invoice_guard
      [of "example_payment_intent\<lparr>pi_invoice := Some ''in_404'', pi_customer := Some ''cus_2''\<rparr>"
          example_sdk example_store]
  by (simp add: example_sdk_def example_payment_intent_def keys_of_def example_store_def
      example_payment_def example_subscription_def is_subscription_payment_def
      recentSubscription_def listSubscriptions_def withIndex_def collect_def runMutation_def
      handlePaymentIntentSucceeded_def new_doc_def get_prop_def Let_def)

text \<open>
  The second guard never trips: the objects that \<open>listSubscriptions\<close> returns have no
  \<open>_creationTime\<close>, so the comparison with the start of the window is false for each.
\<close>

lemma recentSubscription_None: "recentSubscription paymentIntent s = None"
proof -
  have "find (\<lambda>sub. js_gt (obj_creationTime sub) w) (map omit_system_fields ds) = None"
    for w and ds :: "subscription doc list"
    by (induction ds) (simp_all add: omit_system_fields_def)
  then show ?thesis
    by (simp add: recentSubscription_def listSubscriptions_def Let_def)
qed

text \<open>
  Claim C1. The claim says that a \<open>payment_intent.succeeded\<close> event for a customer with
  a subscription created within the last 600 seconds is skipped. The code means to do
  so (the window constant, the scan and the skip are there), but the scan reads
  \<open>_creationTime\<close> from objects that \<open>listSubscriptions\<close> has stripped of it, so no
  subscription is ever found recent. Here the customer \<open>cus_1\<close> has a subscription
  created one second (1000 ms) before the dispatch, the payment intent names no invoice,
  and the dispatch runs the payment handler and creates the payment record \<open>pi_2\<close>.
\<close>

theorem recent_subscription_not_skipped:
  "listSubscriptions ''cus_1'' example_store =
     [\<lparr>obj_creationTime = None, obj_data = example_subscription\<rparr>] \<and>
   clock example_store - creationTime (subscriptions example_store ! 0) = 1000 \<and>
   processEvent example_sdk (PaymentIntentSucceeded example_payment_intent) example_store =
     (None, example_store\<lparr>payments := payments example_store @
        [\<lparr>creationTime = 1700000600000,
          data = \<lparr>pay_stripePaymentIntentId = ''pi_2'', pay_stripeCustomerId = Some ''cus_1'',
                  pay_amount = 4900, pay_currency = ''usd'', pay_status = ''succeeded'',
                  pay_created = 1700000599, pay_metadata = Some [(''userId'', ''user_1'')],
                  pay_orgId = None, pay_userId = Some ''user_1''\<rparr>\<rparr>]\<rparr>)"
  by (simp add: recentSubscription_None is_subscription_payment_def example_payment_intent_def
      runMutation_def handlePaymentIntentSucceeded_def withIndex_def listSubscriptions_def
      collect_def omit_system_fields_def new_doc_def get_prop_def Let_def
      example_store_def example_payment_def example_subscription_def)

section \<open>Responses of the webhook endpoint\<close>

text \<open>
  Claim C8, as stated: 400 whenever the signature header is missing or verification
  fails, 500 whenever a secret is unconfigured. The two overlap, and the code answers at
  the first gate that fails: a request without a signature header gets 400 although the
  API key is unconfigured, and gets 500 when the signing secret is unconfigured.
\<close>

theorem webhook_response_counterexample:
  "opt_or (Option.bind None cfg_STRIPE_SECRET_KEY)
     (env_STRIPE_SECRET_KEY (example_environment\<lparr>env_STRIPE_SECRET_KEY := None\<rparr>)) = None \<and>
   fst (webhook_handler (\<lambda>apiKey. example_sdk) None
          (example_environment\<lparr>env_STRIPE_SECRET_KEY := None\<rparr>)
          (example_request\<lparr>req_signature := None\<rparr>) example_store) =
     \<lparr>resp_status = 400, resp_body = Text ''No signature provided'',
      resp_content_type = Some ''text/plain;charset=UTF-8''\<rparr> \<and>
   req_signature (example_request\<lparr>req_signature := None\<rparr>) = None \<and>
   fst (webhook_handler (\<lambda>apiKey. example_sdk) None
          (example_environment\<lparr>env_STRIPE_WEBHOOK_SECRET := None\<rparr>)
          (example_request\<lparr>req_signature := None\<rparr>) example_store) =
     \<lparr>resp_status = 500, resp_body = Text ''Webhook secret not configured'',
      resp_content_type = Some ''text/plain;charset=UTF-8''\<rparr>"
  by (simp add: webhook_handler_def Let_def opt_or_def text_plain_def example_environment_def
      example_request_def)

text \<open>
  Claim C8, amended. The endpoint answers at the first gate that fails, in this order:
  500 when the signing secret is unconfigured; else 400 when the signature header is
  missing; else 500 when the API key is unconfigured; else 400 when verification of the
  raw body fails (an unparseable body fails there too); else 500 when an exception
  escapes the dispatch or a hook; else 200 with the JSON body \<open>{ received: true }\<close>.
  So it responds 200 exactly when both secrets are configured, the signature header is
  present and verifies against the raw body, and the dispatch and the hooks complete.
\<close>

theorem webhook_response_by_gate:
  "let webhookSecret = opt_or (Option.bind cfg cfg_STRIPE_WEBHOOK_SECRET) (env_STRIPE_WEBHOOK_SECRET env);
       signature = req_signature req;
       apiKey = opt_or (Option.bind cfg cfg_STRIPE_SECRET_KEY) (env_STRIPE_SECRET_KEY env);
       stripe = StripeSDK (the apiKey);
       verified = constructEventAsync stripe (req_body req) (the signature) (the webhookSecret);
       resp = fst (webhook_handler StripeSDK cfg env req s)
   in (\<not> truthy_str webhookSecret \<longrightarrow> resp_status resp = 500) \<and>
      (truthy_str webhookSecret \<and> \<not> truthy_str signature \<longrightarrow> resp_status resp = 400) \<and>
      (truthy_str webhookSecret \<and> truthy_str signature \<and> \<not> truthy_str apiKey
         \<longrightarrow> resp_status resp = 500) \<and>
      (truthy_str webhookSecret \<and> truthy_str signature \<and> truthy_str apiKey \<longrightarrow>
         (case verified of
            Inl err \<Rightarrow> resp_status resp = 400
          | Inr event \<Rightarrow>
              (case then_do (processEvent stripe event s) (run_hooks cfg event) of
                 (Some error, s') \<Rightarrow> resp_status resp = 500
               | (None, s') \<Rightarrow>
                   resp = \<lparr>resp_status = 200, resp_body = Json_received True,
                           resp_content_type = Some ''application/json''\<rparr>))) \<and>
      (resp_status resp = 200 \<longleftrightarrow>
         truthy_str webhookSecret \<and> truthy_str signature \<and> truthy_str apiKey \<and>
         (\<exists>event s'. verified = Inr event \<and>
                      then_do (processEvent stripe event s) (run_hooks cfg event) = (None, s')))"
proof -
  let ?webhookSecret =
    "opt_or (Option.bind cfg cfg_STRIPE_WEBHOOK_SECRET) (env_STRIPE_WEBHOOK_SECRET env)"
  let ?apiKey = "opt_or (Option.bind cfg cfg_STRIPE_SECRET_KEY) (env_STRIPE_SECRET_KEY env)"
  consider
    (no_secret) "\<not> truthy_str ?webhookSecret"
    | (no_signature) "truthy_str ?webhookSecret" "\<not> truthy_str (req_signature req)"
    | (no_key) "truthy_str ?webhookSecret" "truthy_str (req_signature req)" "\<not> truthy_str ?apiKey"
    | (verify) "truthy_str ?webhookSecret" "truthy_str (req_signature req)" "truthy_str ?apiKey"
    by blast
  then show ?thesis
  proof cases
    case no_secret
    then show ?thesis by (simp add: webhook_handler_def Let_def)
  next
    case no_signature
    then show ?thesis by (simp add: webhook_handler_def Let_def)
  next
    case no_key
    then show ?thesis by (simp add: webhook_handler_def Let_def)
  next
    case verify
    then show ?thesis
      by (auto simp: webhook_handler_def Let_def split: sum.splits option.splits prod.splits)
  qed
qed

theorem webhook_response_by_gate_witness:
  "fst (webhook_handler (\<lambda>apiKey. example_sdk) None example_environment example_request example_store) =
     \<lparr>resp_status = 200, resp_body = Json_received True, resp_content_type = Some ''application/json''\<rparr> \<and>
   resp_status (fst (webhook_handler (\<lambda>apiKey. example_sdk) None example_environment
      (example_request\<lparr>req_body := ''tampered''\<rparr>) example_store)) = 400 \<and>
   resp_status (fst (webhook_handler (\<lambda>apiKey. example_sdk) None example_environment
      (example_request\<lparr>req_signature := None\<rparr>) example_store)) = 400 \<and>
   resp_status (fst (webhook_handler (\<lambda>apiKey. example_sdk) None
      (example_environment\<lparr>env_STRIPE_WEBHOOK_SECRET := None\<rparr>) example_request example_store)) = 500 \<and>
   resp_status (fst (webhook_handler (\<lambda>apiKey. example_sdk) None
      (example_environment\<lparr>env_STRIPE_SECRET_KEY := None\<rparr>) example_request example_store)) = 500"
  using
    webhook_response_by_gate
      [of None example_environment example_request "\<lambda>apiKey. example_sdk" example_store]
    webhook_response_by_gate
      [of None example_environment "example_request\<lparr>req_body := ''tampered''\<rparr>"
          "\<lambda>apiKey. example_sdk" example_store]
    webhook_response_by_gate
      [of None example_environment "example_request\<lparr>req_signature := None\<rparr>"
          "\<lambda>apiKey. example_sdk" example_store]
    webhook_response_by_gate
      [of None "example_environment\<lparr>env_STRIPE_WEBHOOK_SECRET := None\<rparr>" example_request
          "\<lambda>apiKey. example_sdk" example_store]
    webhook_response_by_gate
      [of None "example_environment\<lparr>env_STRIPE_SECRET_KEY := None\<rparr>" example_request
          "\<lambda>apiKey. example_sdk" example_store]
  by (simp add: Let_def opt_or_def example_environment_def example_request_def example_sdk_def
      run_hooks_def)

end
